theory Spec2Isabelle
  imports Complex_Main
begin

chapter \<open>Twitch chat emote analyzer: the backend modules\<close>

text \<open>
  A shallow embedding of the Python backend: \<^verbatim>\<open>emote_handler.py\<close>,
  \<^verbatim>\<open>nlp_processor.py\<close>, \<^verbatim>\<open>websocket_manager.py\<close>, \<^verbatim>\<open>twitch_irc.py\<close> and
  \<^verbatim>\<open>main.py\<close>. Module globals become fields of an explicit state, dictionaries become
  maps, exceptions become values, and everything the code obtains from outside the
  process (HTTP replies, the CSV file, the VADER and NLTK libraries, the outcome of a
  websocket send) is a parameter of the function that reads it.

  A Python \<^verbatim>\<open>str\<close> is modelled as a \<^typ>\<open>string\<close> whose characters are the code
  points below 256; a Python \<^verbatim>\<open>float\<close> is modelled as a \<^typ>\<open>real\<close>.
\<close>

section \<open>Python string operations used by the code\<close>

text \<open>The characters for which \<^verbatim>\<open>str.isspace\<close> holds, among the code points below 256.\<close>

definition py_whitespace :: "char list" where
  "py_whitespace =
     [CHR 0x09, CHR 0x0A, CHR 0x0B, CHR 0x0C, CHR 0x0D, CHR 0x1C, CHR 0x1D, CHR 0x1E,
      CHR 0x1F, CHR 0x20, CHR 0x85, CHR 0xA0]"

definition py_isspace :: "char \<Rightarrow> bool" where
  "py_isspace c = (c \<in> set py_whitespace)"

text \<open>
  \<^verbatim>\<open>s.split()\<close>: the maximal runs of non-whitespace characters, in order. The first
  argument of \<open>split_words\<close> is the word read so far.
\<close>

fun split_words :: "string \<Rightarrow> string \<Rightarrow> string list" where
  "split_words cur [] = (if cur = [] then [] else [cur])"
| "split_words cur (c # cs) =
     (if py_isspace c then (if cur = [] then split_words [] cs else cur # split_words [] cs)
      else split_words (cur @ [c]) cs)"

definition py_split :: "string \<Rightarrow> string list" where
  "py_split s = split_words [] s"

text \<open>\<^verbatim>\<open>s.strip()\<close>: whitespace removed at both ends.\<close>

definition py_strip :: "string \<Rightarrow> string" where
  "py_strip s = rev (dropWhile py_isspace (rev (dropWhile py_isspace s)))"

text \<open>
  \<^verbatim>\<open>s.lower()\<close>, character by character: the ASCII capitals and the Latin-1 capitals
  (\<open>0xC0\<close> to \<open>0xDE\<close> without the multiplication sign \<open>0xD7\<close>) move to their small
  letters, every other character stays.
\<close>

definition upper_chars :: "char list" where
  "upper_chars = ''ABCDEFGHIJKLMNOPQRSTUVWXYZ'' @
     [CHR 0xC0, CHR 0xC1, CHR 0xC2, CHR 0xC3, CHR 0xC4, CHR 0xC5, CHR 0xC6, CHR 0xC7,
      CHR 0xC8, CHR 0xC9, CHR 0xCA, CHR 0xCB, CHR 0xCC, CHR 0xCD, CHR 0xCE, CHR 0xCF,
      CHR 0xD0, CHR 0xD1, CHR 0xD2, CHR 0xD3, CHR 0xD4, CHR 0xD5, CHR 0xD6,
      CHR 0xD8, CHR 0xD9, CHR 0xDA, CHR 0xDB, CHR 0xDC, CHR 0xDD, CHR 0xDE]"

definition lower_chars :: "char list" where
  "lower_chars = ''abcdefghijklmnopqrstuvwxyz'' @
     [CHR 0xE0, CHR 0xE1, CHR 0xE2, CHR 0xE3, CHR 0xE4, CHR 0xE5, CHR 0xE6, CHR 0xE7,
      CHR 0xE8, CHR 0xE9, CHR 0xEA, CHR 0xEB, CHR 0xEC, CHR 0xED, CHR 0xEE, CHR 0xEF,
      CHR 0xF0, CHR 0xF1, CHR 0xF2, CHR 0xF3, CHR 0xF4, CHR 0xF5, CHR 0xF6,
      CHR 0xF8, CHR 0xF9, CHR 0xFA, CHR 0xFB, CHR 0xFC, CHR 0xFD, CHR 0xFE]"

definition lower_char :: "char \<Rightarrow> char" where
  "lower_char c = (case map_of (zip upper_chars lower_chars) c of Some d \<Rightarrow> d | None \<Rightarrow> c)"

definition py_lower :: "string \<Rightarrow> string" where
  "py_lower s = map lower_char s"

text \<open>
  \<^verbatim>\<open>s.isalpha()\<close>: the string is not empty and every character is a letter (the letters
  below 256: the two cases above, and \<open>0xAA\<close>, \<open>0xB5\<close>, \<open>0xBA\<close>, \<open>0xDF\<close>, \<open>0xFF\<close>).
\<close>

definition py_isalpha_char :: "char \<Rightarrow> bool" where
  "py_isalpha_char c =
     (c \<in> set upper_chars \<or> c \<in> set lower_chars \<or>
      c \<in> set [CHR 0xAA, CHR 0xB5, CHR 0xBA, CHR 0xDF, CHR 0xFF])"

definition py_isalpha :: "string \<Rightarrow> bool" where
  "py_isalpha s = (s \<noteq> [] \<and> list_all py_isalpha_char s)"

text \<open>\<^verbatim>\<open>s.startswith(p)\<close>.\<close>

fun py_startswith :: "string \<Rightarrow> string \<Rightarrow> bool" where
  "py_startswith s [] = True"
| "py_startswith [] (p # ps) = False"
| "py_startswith (c # cs) (p # ps) = (c = p \<and> py_startswith cs ps)"

text \<open>
  \<^verbatim>\<open>s.replace(old, '')\<close> for a non-empty \<open>old\<close>: every occurrence of \<open>old\<close>, found
  from the left without overlap, is removed. The counter is the number of characters
  of the occurrence that are still to be skipped.
\<close>

fun remove_all :: "string \<Rightarrow> nat \<Rightarrow> string \<Rightarrow> string" where
  "remove_all old k [] = []"
| "remove_all old (Suc k) (c # cs) = remove_all old k cs"
| "remove_all old 0 (c # cs) =
     (if old \<noteq> [] \<and> py_startswith (c # cs) old then remove_all old (length old - 1) cs
      else c # remove_all old 0 cs)"

definition py_remove :: "string \<Rightarrow> string \<Rightarrow> string" where
  "py_remove old s = remove_all old 0 s"

text \<open>\<^verbatim>\<open>s.split(sep)\<close> for a one-character separator: empty pieces are kept.\<close>

fun split_on :: "char \<Rightarrow> string \<Rightarrow> string \<Rightarrow> string list" where
  "split_on sep cur [] = [cur]"
| "split_on sep cur (c # cs) =
     (if c = sep then cur # split_on sep [] cs else split_on sep (cur @ [c]) cs)"

definition py_split_on :: "char \<Rightarrow> string \<Rightarrow> string list" where
  "py_split_on sep s = split_on sep [] s"

text \<open>
  \<^verbatim>\<open>a, b = s.split(sep, 1)\<close>: the unpacking raises \<^verbatim>\<open>ValueError\<close> when \<open>s\<close> has no
  separator, which is the value \<open>None\<close> here.
\<close>

definition py_split_once :: "char \<Rightarrow> string \<Rightarrow> (string \<times> string) option" where
  "py_split_once sep s =
     (case dropWhile (\<lambda>c. c \<noteq> sep) s of
        [] \<Rightarrow> None
      | _ # rest \<Rightarrow> Some (takeWhile (\<lambda>c. c \<noteq> sep) s, rest))"

text \<open>
  \<^verbatim>\<open>int(s)\<close> in base ten: surrounding whitespace is dropped, one sign is allowed, and
  the digits may be grouped by single underscores. \<open>None\<close> is \<^verbatim>\<open>ValueError\<close>. The
  whitespace that \<^verbatim>\<open>int\<close> drops is that of \<^verbatim>\<open>str.isspace\<close> without the four
  separators \<open>0x1C\<close> to \<open>0x1F\<close>. The flag of \<open>parse_digits\<close> says that the character
  before was a digit. The bound on the number of digits that recent interpreters set
  (4300 by default) is not modelled.
\<close>

definition int_isspace :: "char \<Rightarrow> bool" where
  "int_isspace c =
     (c \<in> set [CHR 0x09, CHR 0x0A, CHR 0x0B, CHR 0x0C, CHR 0x0D, CHR 0x20, CHR 0x85, CHR 0xA0])"

definition digit_val :: "char \<Rightarrow> nat option" where
  "digit_val c = map_of (zip ''0123456789'' [0, 1, 2, 3, 4, 5, 6, 7, 8, 9]) c"

fun parse_digits :: "bool \<Rightarrow> nat \<Rightarrow> string \<Rightarrow> nat option" where
  "parse_digits prev acc [] = (if prev then Some acc else None)"
| "parse_digits prev acc (c # cs) =
     (if c = CHR ''_'' then (if prev then parse_digits False acc cs else None)
      else (case digit_val c of
              Some d \<Rightarrow> parse_digits True (10 * acc + d) cs
            | None \<Rightarrow> None))"

definition py_int :: "string \<Rightarrow> int option" where
  "py_int s =
     (case rev (dropWhile int_isspace (rev (dropWhile int_isspace s))) of
        [] \<Rightarrow> None
      | c # cs \<Rightarrow>
          if c = CHR ''-'' then map_option (\<lambda>n. - int n) (parse_digits False 0 cs)
          else if c = CHR ''+'' then map_option int (parse_digits False 0 cs)
          else map_option int (parse_digits False 0 (c # cs)))"

text \<open>
  The slice \<^verbatim>\<open>s[i:j]\<close>: a negative bound counts from the end, and both bounds are
  clipped to the string.
\<close>

definition slice_bound :: "nat \<Rightarrow> int \<Rightarrow> nat" where
  "slice_bound n i = (if i < 0 then nat (int n + i) else min (nat i) n)"

definition py_slice :: "string \<Rightarrow> int \<Rightarrow> int \<Rightarrow> string" where
  "py_slice s i j =
     (let lo = slice_bound (length s) i; hi = slice_bound (length s) j
      in take (hi - lo) (drop lo s))"

section \<open>\<^verbatim>\<open>emote_handler.py\<close>\<close>

text \<open>
  \<^verbatim>\<open>EmoteSet = Dict[str, str]\<close> maps an emote name to its URL; the sentiment catalog
  \<^verbatim>\<open>emote_sentiment_scores\<close> maps an emote name to its score.
\<close>

type_synonym emote_set = "string \<rightharpoonup> string"

type_synonym scores = "string \<rightharpoonup> real"

record emote_data =
  name :: string
  url :: string
  sentiment_score :: "real option"

text \<open>
  \<^verbatim>\<open>detect_emotes_in_message\<close>: the loop over the words of the message. An entry is
  appended only inside the branch \<^verbatim>\<open>if has_sentiment\<close>; the \<^verbatim>\<open>else\<close> branch that would
  append the others is commented out in the source.
\<close>

primrec detect_words :: "scores \<Rightarrow> emote_set \<Rightarrow> string list \<Rightarrow> emote_data list" where
  "detect_words catalog combined_emotes [] = []"
| "detect_words catalog combined_emotes (word # ws) =
     (case combined_emotes word of
        None \<Rightarrow> detect_words catalog combined_emotes ws
      | Some u \<Rightarrow>
          (case catalog word of
             Some sc \<Rightarrow>
               \<lparr>name = word, url = u, sentiment_score = Some sc\<rparr>
                 # detect_words catalog combined_emotes ws
           | None \<Rightarrow> detect_words catalog combined_emotes ws))"

text \<open>
  The dictionary display \<^verbatim>\<open>{**global_seventv_emotes, **ffz_emotes, **seventv_emotes}\<close>:
  a later source overwrites an earlier one, as \<open>++\<close> on maps does.
\<close>

definition detect_emotes_in_message ::
  "scores \<Rightarrow> string \<Rightarrow> emote_set \<Rightarrow> emote_set \<Rightarrow> emote_set \<Rightarrow> emote_data list" where
  "detect_emotes_in_message catalog message_content ffz_emotes seventv_emotes global_seventv_emotes =
     detect_words catalog (global_seventv_emotes ++ ffz_emotes ++ seventv_emotes)
       (py_split message_content)"

subsection \<open>Fetching the emote mappings\<close>

text \<open>
  The reply to an HTTP request whose JSON body has been decoded. \<open>Failed\<close> stands for
  everything that raises inside the \<^verbatim>\<open>try\<close> block of a fetch function before the body
  is read (a request error, a status refused by \<^verbatim>\<open>raise_for_status\<close>, a body that is
  not JSON); \<open>NotFound\<close> is the status 404.
\<close>

datatype 'a reply = Failed | NotFound | Body 'a

text \<open>
  The parts of the JSON bodies that the code reads. A field of type \<open>option\<close> is a key
  that may be missing. \<open>ffz_url1\<close> is \<^verbatim>\<open>emote.get('urls', {}).get('1')\<close>; \<open>stv_files\<close>
  holds \<^verbatim>\<open>f.get("name")\<close> of every file of \<^verbatim>\<open>emote["data"]["host"]["files"]\<close>, and
  \<open>stv_host_url\<close> is \<^verbatim>\<open>emote['data']['host']['url']\<close>.
\<close>

record ffz_emote =
  ffz_name :: "string option"
  ffz_url1 :: "string option"

record seventv_emote =
  stv_name :: "string option"
  stv_host_url :: "string option"
  stv_files :: "string option list"

record seventv_user_body =
  emote_set_emotes :: "seventv_emote list option"
  user_emotes :: "seventv_emote list option"

text \<open>
  The network, as the code sees it: the Twitch user lookup (by the \<^verbatim>\<open>Client-ID\<close>
  header, the bearer token and the \<^verbatim>\<open>login\<close> parameter; the body is the list of the
  \<^verbatim>\<open>id\<close> fields of \<^verbatim>\<open>data["data"]\<close>), the FFZ room (the body is \<^verbatim>\<open>data["sets"]\<close>, each
  set with its \<^verbatim>\<open>emoticons\<close>), the 7TV user and the 7TV global emote set (the body is
  \<^verbatim>\<open>data["emotes"]\<close>).
\<close>

record env =
  twitch_users :: "string \<Rightarrow> string \<Rightarrow> string \<Rightarrow> string list reply"
  ffz_room :: "string \<Rightarrow> ffz_emote list option list option reply"
  seventv_user :: "string \<Rightarrow> seventv_user_body reply"
  seventv_global :: "seventv_emote list option reply"

text \<open>
  \<^verbatim>\<open>get_twitch_user_id\<close>: \<open>None\<close> when the client id or the token is missing or empty,
  and whenever the lookup fails or finds no user.
\<close>

definition get_twitch_user_id ::
  "env \<Rightarrow> string \<Rightarrow> string option \<Rightarrow> string option \<Rightarrow> string option" where
  "get_twitch_user_id e channel_name client_id token =
     (case client_id of
        None \<Rightarrow> None
      | Some cid \<Rightarrow>
          (case token of
             None \<Rightarrow> None
           | Some tok \<Rightarrow>
               if cid = [] \<or> tok = [] then None
               else (case twitch_users e cid (py_remove ''oauth:'' tok) (py_lower channel_name) of
                       Body (user_id # _) \<Rightarrow> Some user_id
                     | _ \<Rightarrow> None)))"

text \<open>
  \<^verbatim>\<open>get_ffz_emotes\<close>. The loops fill the dictionary \<open>emotes\<close>; \<open>Inl\<close> is the dictionary
  at the moment an entry raises (\<^verbatim>\<open>emote["name"]\<close> on an entry without a name), which
  the \<^verbatim>\<open>except\<close> clause then returns as it is.
\<close>

primrec ffz_emoticons :: "ffz_emote list \<Rightarrow> emote_set \<Rightarrow> emote_set + emote_set" where
  "ffz_emoticons [] emotes = Inr emotes"
| "ffz_emoticons (emote # rest) emotes =
     (case ffz_url1 emote of
        None \<Rightarrow> ffz_emoticons rest emotes
      | Some emote_url \<Rightarrow>
          if emote_url = [] then ffz_emoticons rest emotes
          else (case ffz_name emote of
                  None \<Rightarrow> Inl emotes
                | Some n \<Rightarrow>
                    ffz_emoticons rest
                      (emotes(n \<mapsto> (if py_startswith emote_url ''http'' then emote_url
                                     else ''https:'' @ emote_url)))))"

primrec ffz_sets :: "ffz_emote list option list \<Rightarrow> emote_set \<Rightarrow> emote_set + emote_set" where
  "ffz_sets [] emotes = Inr emotes"
| "ffz_sets (emote_set # rest) emotes =
     (case emote_set of
        None \<Rightarrow> ffz_sets rest emotes
      | Some emoticons \<Rightarrow>
          (case ffz_emoticons emoticons emotes of
             Inl partial \<Rightarrow> Inl partial
           | Inr emotes' \<Rightarrow> ffz_sets rest emotes'))"

definition get_ffz_emotes :: "env \<Rightarrow> string \<Rightarrow> emote_set" where
  "get_ffz_emotes e channel_name =
     (case ffz_room e (py_lower channel_name) of
        NotFound \<Rightarrow> Map.empty
      | Failed \<Rightarrow> Map.empty
      | Body None \<Rightarrow> Map.empty
      | Body (Some sets) \<Rightarrow>
          (case ffz_sets sets Map.empty of Inl partial \<Rightarrow> partial | Inr emotes \<Rightarrow> emotes))"

text \<open>
  The loop shared by \<^verbatim>\<open>get_7tv_emotes\<close> and \<^verbatim>\<open>get_7tv_global_emotes\<close>: an emote is
  stored when it has a non-empty name and a file named \<^verbatim>\<open>1x.webp\<close>; building the URL
  raises when the host has no \<^verbatim>\<open>url\<close>.
\<close>

primrec seventv_emotes_loop :: "seventv_emote list \<Rightarrow> emote_set \<Rightarrow> emote_set + emote_set" where
  "seventv_emotes_loop [] emotes = Inr emotes"
| "seventv_emotes_loop (emote # rest) emotes =
     (if Some ''1x.webp'' \<in> set (stv_files emote) then
        (case stv_host_url emote of
           None \<Rightarrow> Inl emotes
         | Some host \<Rightarrow>
             (case stv_name emote of
                None \<Rightarrow> seventv_emotes_loop rest emotes
              | Some emote_name \<Rightarrow>
                  if emote_name = [] then seventv_emotes_loop rest emotes
                  else seventv_emotes_loop rest (emotes(emote_name \<mapsto> host @ ''/1x.webp''))))
      else seventv_emotes_loop rest emotes)"

definition get_7tv_emotes :: "env \<Rightarrow> string \<Rightarrow> emote_set" where
  "get_7tv_emotes e channel_id =
     (if channel_id = [] then Map.empty
      else (case seventv_user e channel_id of
              NotFound \<Rightarrow> Map.empty
            | Failed \<Rightarrow> Map.empty
            | Body data \<Rightarrow>
                (let emote_list =
                       (case emote_set_emotes data of
                          Some l \<Rightarrow> l
                        | None \<Rightarrow> (case user_emotes data of Some l \<Rightarrow> l | None \<Rightarrow> []))
                 in case seventv_emotes_loop emote_list Map.empty of
                      Inl partial \<Rightarrow> partial
                    | Inr emotes \<Rightarrow> emotes)))"

definition get_7tv_global_emotes :: "env \<Rightarrow> emote_set" where
  "get_7tv_global_emotes e =
     (case seventv_global e of
        Body (Some emote_list) \<Rightarrow>
          (case seventv_emotes_loop emote_list Map.empty of
             Inl partial \<Rightarrow> partial
           | Inr emotes \<Rightarrow> emotes)
      | _ \<Rightarrow> Map.empty)"

text \<open>
  The module globals \<^verbatim>\<open>seventv_global_cache\<close> and \<^verbatim>\<open>emote_cache\<close>, and
  \<^verbatim>\<open>fetch_all_emotes_for_channel\<close>, which returns the three mappings and the globals
  as it leaves them. The two fetch functions catch every exception themselves, so
  \<^verbatim>\<open>asyncio.gather\<close> returns their dictionaries.
\<close>

record emote_globals =
  seventv_global_cache :: "emote_set option"
  emote_cache :: "string \<rightharpoonup> emote_set \<times> emote_set"

definition fetch_all_emotes_for_channel ::
  "env \<Rightarrow> string \<Rightarrow> string option \<Rightarrow> string option \<Rightarrow> emote_globals
     \<Rightarrow> (emote_set \<times> emote_set \<times> emote_set) \<times> emote_globals" where
  "fetch_all_emotes_for_channel e channel_name client_id token g =
     (let channel_name_lower = py_lower channel_name;
          global_emotes =
            (case seventv_global_cache g of
               None \<Rightarrow> get_7tv_global_emotes e
             | Some cached \<Rightarrow> cached);
          twitch_user_id = get_twitch_user_id e channel_name_lower client_id token;
          ffz_emotes = get_ffz_emotes e channel_name_lower;
          seventv_channel_emotes =
            (case twitch_user_id of
               None \<Rightarrow> Map.empty
             | Some uid \<Rightarrow> if uid = [] then Map.empty else get_7tv_emotes e uid)
      in ((ffz_emotes, seventv_channel_emotes, global_emotes),
          g\<lparr>seventv_global_cache := Some global_emotes,
            emote_cache := (emote_cache g)(channel_name_lower \<mapsto> (ffz_emotes, seventv_channel_emotes))\<rparr>))"

section \<open>\<^verbatim>\<open>nlp_processor.py\<close>\<close>

text \<open>
  What the module takes from the file system and from its libraries. \<open>csv_file\<close> is
  \<^verbatim>\<open>emoji_sentiment_scores.csv\<close> as \<^verbatim>\<open>csv.DictReader\<close> yields it (\<open>None\<close> when the file
  does not exist); a row carries \<^verbatim>\<open>row.get('EmoteName')\<close> and
  \<^verbatim>\<open>row.get('SentimentScore')\<close>, and \<open>CsvReadError\<close> is a read that raises. \<open>parse_float\<close>
  is \<^verbatim>\<open>float(s)\<close> and \<open>vader\<close> is \<^verbatim>\<open>vader_analyzer.polarity_scores(s)['compound']\<close>, each
  \<open>None\<close> when it raises. \<open>pos_tag\<close> is \<^verbatim>\<open>nltk.pos_tag\<close> and \<open>lemmatize\<close> is
  \<^verbatim>\<open>lemmatizer.lemmatize\<close>, again \<open>None\<close> when they raise.
\<close>

datatype csv_item = CsvRow "string option" "string option" | CsvReadError

record lib =
  csv_file :: "csv_item list option"
  parse_float :: "string \<Rightarrow> real option"
  vader :: "string \<Rightarrow> real option"
  nltk_data_ready :: bool
  stop_words :: "string set"
  pos_tag :: "string list \<Rightarrow> (string \<times> string) list option"
  lemmatize :: "string \<Rightarrow> string option"

text \<open>
  \<^verbatim>\<open>load_emote_sentiment_scores\<close> writes into the dictionary it finds; a row counts when
  both fields are present and non-empty and the score parses. A read error ends the
  loading with the entries stored so far.
\<close>

primrec load_rows :: "(string \<Rightarrow> real option) \<Rightarrow> csv_item list \<Rightarrow> scores \<Rightarrow> scores" where
  "load_rows to_float [] catalog = catalog"
| "load_rows to_float (item # rest) catalog =
     (case item of
        CsvReadError \<Rightarrow> catalog
      | CsvRow emote_field score_field \<Rightarrow>
          (case emote_field of
             None \<Rightarrow> load_rows to_float rest catalog
           | Some n \<Rightarrow>
               (case score_field of
                  None \<Rightarrow> load_rows to_float rest catalog
                | Some v \<Rightarrow>
                    if n = [] \<or> v = [] then load_rows to_float rest catalog
                    else (case to_float v of
                            None \<Rightarrow> load_rows to_float rest catalog
                          | Some x \<Rightarrow> load_rows to_float rest (catalog(n \<mapsto> x))))))"

definition load_emote_sentiment_scores :: "lib \<Rightarrow> scores \<Rightarrow> scores" where
  "load_emote_sentiment_scores l catalog =
     (case csv_file l of
        None \<Rightarrow> catalog
      | Some rows \<Rightarrow> load_rows (parse_float l) rows catalog)"

text \<open>
  \<^verbatim>\<open>reload_emote_sentiment_scores\<close> clears the dictionary, loads it again and returns
  its new length together with the dictionary.
\<close>

definition reload_emote_sentiment_scores :: "lib \<Rightarrow> scores \<Rightarrow> nat \<times> scores" where
  "reload_emote_sentiment_scores l catalog =
     (let catalog' = load_emote_sentiment_scores l Map.empty
      in (card (dom catalog'), catalog'))"

text \<open>\<^verbatim>\<open>round(x, 3)\<close>, on reals: to the nearest multiple of \<open>1/1000\<close>, a tie to the even one.\<close>

definition py_round3 :: "real \<Rightarrow> real" where
  "py_round3 x =
     (let y = x * 1000; f = \<lfloor>y\<rfloor>; d = y - of_int f
      in of_int (if d < 1 / 2 then f else if 1 / 2 < d then f + 1
                 else if even f then f else f + 1) / 1000)"

text \<open>
  \<^verbatim>\<open>analyze_sentiment\<close>. The first loop scores the words found in the catalog, by their
  own spelling or by their lower-case spelling. The second loop runs inside the
  \<^verbatim>\<open>try\<close> block: it asks VADER for every word not scored yet and keeps the scores
  that are not zero; \<open>Inl\<close> is the dictionary at the moment VADER raises.
\<close>

primrec csv_word_scores :: "scores \<Rightarrow> string list \<Rightarrow> scores \<Rightarrow> scores" where
  "csv_word_scores catalog [] word_scores = word_scores"
| "csv_word_scores catalog (word # rest) word_scores =
     (case catalog word of
        Some s \<Rightarrow> csv_word_scores catalog rest (word_scores(word \<mapsto> s))
      | None \<Rightarrow>
          (case catalog (py_lower word) of
             Some s \<Rightarrow> csv_word_scores catalog rest (word_scores(word \<mapsto> s))
           | None \<Rightarrow> csv_word_scores catalog rest word_scores))"

primrec vader_word_scores ::
  "(string \<Rightarrow> real option) \<Rightarrow> string list \<Rightarrow> scores \<Rightarrow> scores + scores" where
  "vader_word_scores polarity [] word_scores = Inr word_scores"
| "vader_word_scores polarity (word # rest) word_scores =
     (if word_scores word = None \<and> word_scores (py_lower word) = None then
        (case polarity word of
           None \<Rightarrow> Inl word_scores
         | Some c \<Rightarrow>
             if c \<noteq> 0 then vader_word_scores polarity rest (word_scores(word \<mapsto> py_round3 c))
             else vader_word_scores polarity rest word_scores)
      else vader_word_scores polarity rest word_scores)"

definition analyze_sentiment :: "lib \<Rightarrow> scores \<Rightarrow> string \<Rightarrow> real option \<times> scores" where
  "analyze_sentiment l catalog text =
     (if text = [] then (Some 0, Map.empty)
      else
        (let words_in_text = py_split text;
             word_scores = csv_word_scores catalog words_in_text Map.empty
         in case vader l text of
              None \<Rightarrow> (None, word_scores)
            | Some compound \<Rightarrow>
                (case vader_word_scores (vader l) words_in_text word_scores of
                   Inl partial \<Rightarrow> (None, partial)
                 | Inr word_scores' \<Rightarrow> (Some (py_round3 compound), word_scores'))))"

text \<open>
  \<^verbatim>\<open>FreqDist(keywords).most_common(n)\<close>: the distinct keywords in the order of their
  first occurrence, sorted by falling count with ties left in that order, cut to \<open>n\<close>.
\<close>

definition first_seen :: "'a list \<Rightarrow> 'a list" where
  "first_seen xs = rev (remdups (rev xs))"

definition most_common :: "nat \<Rightarrow> string list \<Rightarrow> string list" where
  "most_common n xs = take n (sort_key (\<lambda>k. - int (count_list xs k)) (first_seen xs))"

definition KEYWORD_POS_TAGS :: "string set" where
  "KEYWORD_POS_TAGS = {''NN'', ''NNS'', ''NNP'', ''NNPS''}"

text \<open>\<^verbatim>\<open>extract_keywords\<close>: every exception inside the \<^verbatim>\<open>try\<close> block gives the empty list.\<close>

definition extract_keywords :: "lib \<Rightarrow> string \<Rightarrow> nat \<Rightarrow> string list" where
  "extract_keywords l text max_keywords =
     (if \<not> nltk_data_ready l then []
      else
        (let tokens = map py_lower (filter py_isalpha (py_split text));
             filtered_tokens = filter (\<lambda>w. w \<notin> stop_words l) tokens
         in case pos_tag l filtered_tokens of
              None \<Rightarrow> []
            | Some tagged_tokens \<Rightarrow>
                (case those (map (\<lambda>(word, tag). lemmatize l word)
                               (filter (\<lambda>(word, tag). tag \<in> KEYWORD_POS_TAGS) tagged_tokens)) of
                   None \<Rightarrow> []
                 | Some kws \<Rightarrow> most_common max_keywords kws)))"

section \<open>\<^verbatim>\<open>websocket_manager.py\<close>\<close>

text \<open>
  A websocket is known by its identity. \<^verbatim>\<open>ConnectionManager.active_connections\<close>
  maps a streamer name to the list of its websockets.
\<close>

type_synonym websocket = nat

type_synonym connections = "string \<rightharpoonup> websocket list"

text \<open>
  \<^verbatim>\<open>connect\<close>: \<open>None\<close> when \<^verbatim>\<open>websocket.accept()\<close> raises (the flag \<open>accepted\<close> is
  false), which leaves the dictionary as it was.
\<close>

definition connect :: "bool \<Rightarrow> websocket \<Rightarrow> string \<Rightarrow> connections \<Rightarrow> connections option" where
  "connect accepted ws streamer_name conns =
     (if \<not> accepted then None
      else
        (let n = py_lower streamer_name;
             clients = (case conns n of None \<Rightarrow> [] | Some l \<Rightarrow> l)
         in Some (conns(n \<mapsto> clients @ [ws]))))"

text \<open>
  \<^verbatim>\<open>disconnect\<close>: \<^verbatim>\<open>list.remove\<close> takes out the first occurrence and raises
  \<^verbatim>\<open>ValueError\<close> when there is none, which the method swallows.
\<close>

definition disconnect :: "websocket \<Rightarrow> string \<Rightarrow> connections \<Rightarrow> connections" where
  "disconnect ws streamer_name conns =
     (let n = py_lower streamer_name
      in case conns n of
           None \<Rightarrow> conns
         | Some clients \<Rightarrow>
             if ws \<in> set clients then
               (if remove1 ws clients = [] then conns(n := None)
                else conns(n \<mapsto> remove1 ws clients))
             else conns)"

text \<open>
  \<^verbatim>\<open>broadcast_to_streamer\<close>: \<open>send_fails\<close> tells for which websockets
  \<^verbatim>\<open>send_json\<close> raises. The result is the dictionary after the failed clients have
  been disconnected, and the list of the websockets that received the message.
\<close>

definition broadcast_to_streamer ::
  "(websocket \<Rightarrow> bool) \<Rightarrow> string \<Rightarrow> connections \<Rightarrow> connections \<times> websocket list" where
  "broadcast_to_streamer send_fails streamer_name conns =
     (let n = py_lower streamer_name
      in case conns n of
           None \<Rightarrow> (conns, [])
         | Some clients \<Rightarrow>
             (let disconnected_clients = filter send_fails clients
              in (fold (\<lambda>client cs. disconnect client n cs) disconnected_clients conns,
                  filter (\<lambda>c. \<not> send_fails c) clients)))"

text \<open>
  The invariant of the registry: no streamer name is kept with an empty list of
  websockets.
\<close>

definition registry_inv :: "connections \<Rightarrow> bool" where
  "registry_inv conns = (\<forall>n clients. conns n = Some clients \<longrightarrow> clients \<noteq> [])"

section \<open>\<^verbatim>\<open>twitch_irc.py\<close>\<close>

text \<open>The credentials read from the environment when the module is loaded.\<close>

record config =
  TWITCH_ACCESS_TOKEN :: string
  TWITCH_CLIENT_ID :: string

text \<open>
  A \<^verbatim>\<open>TwitchBot\<close>: its channel, its three emote mappings, the state of
  \<^verbatim>\<open>_emote_fetch_task\<close> and the state of its IRC connection.
\<close>

datatype task_state = NoTask | TaskRunning | TaskDone | TaskCancelled

datatype bot_status = Initialized | Started | Closed

record twitch_bot =
  streamer_channel :: string
  ffz_emotes :: emote_set
  seventv_channel_emotes :: emote_set
  seventv_global_emotes :: emote_set
  emote_fetch_task :: task_state
  status :: bot_status

definition new_bot :: "string \<Rightarrow> twitch_bot" where
  "new_bot channel =
     \<lparr>streamer_channel = py_lower channel, ffz_emotes = Map.empty,
      seventv_channel_emotes = Map.empty, seventv_global_emotes = Map.empty,
      emote_fetch_task = NoTask, status = Initialized\<rparr>"

text \<open>
  The chat message that \<^verbatim>\<open>event_message\<close> receives (\<open>timestamp\<close> is
  \<^verbatim>\<open>message.timestamp.isoformat()\<close>, \<open>author\<close> is \<^verbatim>\<open>message.author.name\<close>), an entry of
  \<^verbatim>\<open>all_detected_emotes\<close>, and the payload of the event that is sent.
\<close>

record raw_event =
  echo :: bool
  content :: "string option"
  timestamp :: string
  author :: string
  tags :: "(string \<rightharpoonup> string) option"

record detected_emote =
  d_name :: string
  d_url :: string
  d_type :: string
  d_sentiment_score :: "real option"

record payload =
  p_timestamp :: string
  p_author :: string
  p_content :: string
  p_tags :: "(string \<rightharpoonup> string) option"
  p_sentiment_score :: "real option"
  p_sentiment_words :: scores
  p_keywords :: "string list"
  p_detected_emotes :: "detected_emote list"

datatype message = StatusMsg string | WarningMsg string | ErrorMsg string | ChatMessage payload

text \<open>A message together with the websockets that received it.\<close>

type_synonym delivery = "message \<times> websocket list"

text \<open>
  One part \<^verbatim>\<open>id:start-end,start-end\<close> of the \<^verbatim>\<open>emotes\<close> tag, as the loop body reads it:
  the id, and the two bounds of the first range. \<open>None\<close> is any of the exceptions the
  three unpacking lines can raise.
\<close>

definition parse_emote_part :: "string \<Rightarrow> (string \<times> int \<times> int) option" where
  "parse_emote_part emote_part =
     (case py_split_once CHR '':'' emote_part of
        None \<Rightarrow> None
      | Some (emote_id, ranges) \<Rightarrow>
          (case py_split_on CHR '','' ranges of
             [] \<Rightarrow> None
           | first_range # _ \<Rightarrow>
               (case py_split_on CHR ''-'' first_range of
                  [a, b] \<Rightarrow>
                    (case py_int a of
                       None \<Rightarrow> None
                     | Some start \<Rightarrow>
                         (case py_int b of
                            None \<Rightarrow> None
                          | Some stop \<Rightarrow> Some (emote_id, start, stop)))
                | _ \<Rightarrow> None)))"

definition twitch_emote_url :: "string \<Rightarrow> string" where
  "twitch_emote_url emote_id =
     ''https://static-cdn.jtvnw.net/emoticons/v2/'' @ emote_id @ ''/default/dark/1.0''"

text \<open>
  The loop over the parts of the tag. Its state is \<^verbatim>\<open>all_detected_emotes\<close> and
  \<^verbatim>\<open>processed_emote_names\<close>. A part that raises ends the loop, since the \<^verbatim>\<open>try\<close>
  block encloses the whole loop; the entries appended before stay.
\<close>

fun twitch_emotes_loop ::
  "string \<Rightarrow> scores \<Rightarrow> string list \<Rightarrow> detected_emote list \<times> string set
     \<Rightarrow> detected_emote list \<times> string set" where
  "twitch_emotes_loop text sentiment_words [] st = st"
| "twitch_emotes_loop text sentiment_words (emote_part # rest) (detected, processed) =
     (case parse_emote_part emote_part of
        None \<Rightarrow> (detected, processed)
      | Some (emote_id, start, stop) \<Rightarrow>
          (let emote_name = py_slice text start (stop + 1)
           in if emote_name \<notin> processed then
                twitch_emotes_loop text sentiment_words rest
                  (detected @
                     [\<lparr>d_name = emote_name, d_url = twitch_emote_url emote_id,
                       d_type = ''twitch'', d_sentiment_score = sentiment_words emote_name\<rparr>],
                   insert emote_name processed)
              else twitch_emotes_loop text sentiment_words rest (detected, processed)))"

text \<open>
  Step 1 of the merge: the loop runs when the message has tags and the \<^verbatim>\<open>emotes\<close>
  tag is not empty.
\<close>

definition twitch_tag_emotes ::
  "string \<Rightarrow> scores \<Rightarrow> (string \<rightharpoonup> string) option \<Rightarrow> detected_emote list \<times> string set" where
  "twitch_tag_emotes text sentiment_words message_tags =
     (case message_tags of
        None \<Rightarrow> ([], {})
      | Some t \<Rightarrow>
          (case t ''emotes'' of
             None \<Rightarrow> ([], {})
           | Some emote_tag \<Rightarrow>
               if emote_tag = [] then ([], {})
               else twitch_emotes_loop text sentiment_words (py_split_on CHR ''/'' emote_tag)
                      ([], {})))"

text \<open>
  Step 2 of the merge: the loop over the custom detections. \<^verbatim>\<open>EmoteData\<close> has no key
  \<^verbatim>\<open>source\<close>, so the type is always \<^verbatim>\<open>'custom'\<close>.
\<close>

fun custom_emotes_loop ::
  "scores \<Rightarrow> emote_data list \<Rightarrow> detected_emote list \<times> string set
     \<Rightarrow> detected_emote list \<times> string set" where
  "custom_emotes_loop sentiment_words [] st = st"
| "custom_emotes_loop sentiment_words (custom_emote # rest) (detected, processed) =
     (if name custom_emote \<notin> processed then
        custom_emotes_loop sentiment_words rest
          (detected @
             [\<lparr>d_name = name custom_emote, d_url = url custom_emote, d_type = ''custom'',
               d_sentiment_score = sentiment_words (name custom_emote)\<rparr>],
           insert (name custom_emote) processed)
      else custom_emotes_loop sentiment_words rest (detected, processed))"

definition all_detected_emotes ::
  "string \<Rightarrow> scores \<Rightarrow> (string \<rightharpoonup> string) option \<Rightarrow> emote_data list \<Rightarrow> detected_emote list" where
  "all_detected_emotes text sentiment_words message_tags all_custom_emotes =
     fst (custom_emotes_loop sentiment_words all_custom_emotes
            (twitch_tag_emotes text sentiment_words message_tags))"

text \<open>
  The data processing pipeline of \<^verbatim>\<open>event_message\<close> for a message with the non-empty
  content \<open>text\<close>. \<open>analyze_sentiment\<close> catches what VADER raises and returns a tuple,
  so the \<^verbatim>\<open>except\<close> clause around its call is never entered.
\<close>

definition enrich :: "lib \<Rightarrow> scores \<Rightarrow> twitch_bot \<Rightarrow> raw_event \<Rightarrow> string \<Rightarrow> payload" where
  "enrich l catalog tbot ev text =
     (let (sentiment, sentiment_words) = analyze_sentiment l catalog text;
          kws = extract_keywords l text 5;
          all_custom_emotes =
            detect_emotes_in_message catalog text (ffz_emotes tbot)
              (seventv_channel_emotes tbot) (seventv_global_emotes tbot)
      in \<lparr>p_timestamp = timestamp ev, p_author = author ev, p_content = text,
          p_tags = tags ev, p_sentiment_score = sentiment,
          p_sentiment_words = sentiment_words, p_keywords = kws,
          p_detected_emotes =
            all_detected_emotes text sentiment_words (tags ev) all_custom_emotes\<rparr>)"

text \<open>
  The process: the sentiment catalog, the globals of \<^verbatim>\<open>emote_handler\<close>, the
  connection manager's registry, \<^verbatim>\<open>active_bots\<close>, and the bot objects. A bot is
  referred to by its identity, a number that \<open>next_bot\<close> hands out once.
\<close>

record server =
  emote_sentiment_scores :: scores
  emote_handler :: emote_globals
  active_connections :: connections
  active_bots :: "string \<rightharpoonup> nat"
  bot_heap :: "nat \<rightharpoonup> twitch_bot"
  next_bot :: nat

text \<open>
  \<^verbatim>\<open>TwitchBot.event_message\<close> for the bot \<open>self\<close>: nothing happens for an echo or a
  message without content; otherwise the enriched message is broadcast to the
  websockets of the bot's channel.
\<close>

definition event_message ::
  "lib \<Rightarrow> (websocket \<Rightarrow> bool) \<Rightarrow> nat \<Rightarrow> raw_event \<Rightarrow> server \<Rightarrow> delivery list \<times> server" where
  "event_message l send_fails self ev srv =
     (case bot_heap srv self of
        None \<Rightarrow> ([], srv)
      | Some tbot \<Rightarrow>
          if echo ev then ([], srv)
          else (case content ev of
                  None \<Rightarrow> ([], srv)
                | Some text \<Rightarrow>
                    if text = [] then ([], srv)
                    else
                      (let processed_data =
                             ChatMessage (enrich l (emote_sentiment_scores srv) tbot ev text);
                           (conns, receivers) =
                             broadcast_to_streamer send_fails (streamer_channel tbot)
                               (active_connections srv)
                       in ([(processed_data, receivers)], srv\<lparr>active_connections := conns\<rparr>))))"

text \<open>
  \<^verbatim>\<open>TwitchBot._fetch_emotes\<close>: the three mappings are fetched with the credentials
  of the environment and stored in the bot, and a status message is broadcast.
\<close>

definition fetch_emotes ::
  "env \<Rightarrow> config \<Rightarrow> (websocket \<Rightarrow> bool) \<Rightarrow> nat \<Rightarrow> server \<Rightarrow> delivery list \<times> server" where
  "fetch_emotes e cfg send_fails self srv =
     (case bot_heap srv self of
        None \<Rightarrow> ([], srv)
      | Some tbot \<Rightarrow>
          (let ((ffz, tv_chan, tv_glob), g) =
                 fetch_all_emotes_for_channel e (streamer_channel tbot)
                   (Some (TWITCH_CLIENT_ID cfg)) (Some (TWITCH_ACCESS_TOKEN cfg))
                   (emote_handler srv);
               tbot' = tbot\<lparr>ffz_emotes := ffz, seventv_channel_emotes := tv_chan,
                         seventv_global_emotes := tv_glob\<rparr>;
               (conns, receivers) =
                 broadcast_to_streamer send_fails (streamer_channel tbot) (active_connections srv)
           in ([(StatusMsg ''FFZ/7TV emote data loaded.'', receivers)],
               srv\<lparr>emote_handler := g, bot_heap := (bot_heap srv)(self \<mapsto> tbot'),
                   active_connections := conns\<rparr>)))"

text \<open>
  \<^verbatim>\<open>TwitchBot.stop_bot\<close>: a running emote fetch is cancelled, then the connection is
  closed; the flag is false when \<^verbatim>\<open>self.close()\<close> raises.
\<close>

definition stop_bot :: "bool \<Rightarrow> twitch_bot \<Rightarrow> bool \<times> twitch_bot" where
  "stop_bot close_ok tbot =
     (let bot1 = (if emote_fetch_task tbot = TaskRunning
                  then tbot\<lparr>emote_fetch_task := TaskCancelled\<rparr> else tbot)
      in if close_ok then (True, bot1\<lparr>status := Closed\<rparr>) else (False, bot1))"

text \<open>
  \<^verbatim>\<open>start_twitch_bot\<close>. \<open>spawned\<close> is the outcome of
  \<^verbatim>\<open>asyncio.create_task(bot.start())\<close>, with the text of the exception when it raises.
  The result is the bot (or \<open>None\<close>), the messages sent, and the process afterwards.
\<close>

datatype task_start = TaskCreated | TaskAuthError string | TaskFailed string

definition start_twitch_bot ::
  "config \<Rightarrow> (websocket \<Rightarrow> bool) \<Rightarrow> task_start \<Rightarrow> string \<Rightarrow> server
     \<Rightarrow> nat option \<times> delivery list \<times> server" where
  "start_twitch_bot cfg send_fails spawned streamer_name srv =
     (let n = py_lower streamer_name
      in case active_bots srv n of
           Some b \<Rightarrow>
             (let (conns, receivers) = broadcast_to_streamer send_fails n (active_connections srv)
              in (Some b,
                  [(StatusMsg (''Analysis already running for '' @ n @ ''.''), receivers)],
                  srv\<lparr>active_connections := conns\<rparr>))
         | None \<Rightarrow>
             (let (conns1, out1) =
                    (if TWITCH_ACCESS_TOKEN cfg = [] then
                       (let (conns, receivers) =
                              broadcast_to_streamer send_fails n (active_connections srv)
                        in (conns,
                            [(WarningMsg
                                ''Connecting to Twitch anonymously. Bot functionality might be limited.'',
                              receivers)]))
                     else (active_connections srv, []));
                  b = next_bot srv;
                  srv1 = srv\<lparr>active_connections := conns1,
                             active_bots := (active_bots srv)(n \<mapsto> b),
                             bot_heap := (bot_heap srv)(b \<mapsto> new_bot n),
                             next_bot := Suc b\<rparr>
              in case spawned of
                   TaskCreated \<Rightarrow>
                     (Some b, out1,
                      srv1\<lparr>bot_heap := (bot_heap srv1)(b \<mapsto> (new_bot n)\<lparr>status := Started\<rparr>)\<rparr>)
                 | TaskAuthError err \<Rightarrow>
                     (let (conns2, receivers) = broadcast_to_streamer send_fails n conns1
                      in (None,
                          out1 @ [(ErrorMsg (''Twitch Auth Error: '' @ err @ ''. Check credentials.''),
                                   receivers)],
                          srv1\<lparr>active_connections := conns2,
                               active_bots := (active_bots srv1)(n := None)\<rparr>))
                 | TaskFailed err \<Rightarrow>
                     (let (conns2, receivers) = broadcast_to_streamer send_fails n conns1
                      in (None,
                          out1 @ [(ErrorMsg (''Server error starting analysis: '' @ err), receivers)],
                          srv1\<lparr>active_connections := conns2,
                               active_bots := (active_bots srv1)(n := None)\<rparr>))))"

text \<open>
  \<^verbatim>\<open>stop_twitch_bot\<close>: the bot is popped from \<^verbatim>\<open>active_bots\<close> first and stopped then.
\<close>

definition stop_twitch_bot :: "bool \<Rightarrow> string \<Rightarrow> server \<Rightarrow> bool \<times> server" where
  "stop_twitch_bot close_ok streamer_name srv =
     (let n = py_lower streamer_name
      in case active_bots srv n of
           None \<Rightarrow> (False, srv)
         | Some b \<Rightarrow>
             (let srv1 = srv\<lparr>active_bots := (active_bots srv)(n := None)\<rparr>
              in case bot_heap srv1 b of
                   None \<Rightarrow> (False, srv1)
                 | Some tbot \<Rightarrow>
                     (let (stopped, tbot') = stop_bot close_ok tbot
                      in (stopped, srv1\<lparr>bot_heap := (bot_heap srv1)(b \<mapsto> tbot')\<rparr>))))"

section \<open>\<^verbatim>\<open>main.py\<close>\<close>

text \<open>
  The endpoint \<^verbatim>\<open>/reload-emoji-sentiments\<close>; the response is given by its fields
  \<^verbatim>\<open>success\<close> and \<^verbatim>\<open>emote_count\<close>. \<open>reload_emote_sentiment_scores\<close> raises nothing,
  so the \<^verbatim>\<open>except\<close> clause is never entered.
\<close>

record reload_response =
  success :: bool
  emote_count :: nat

definition reload_emoji_sentiments :: "lib \<Rightarrow> server \<Rightarrow> reload_response \<times> server" where
  "reload_emoji_sentiments l srv =
     (let (new_count, catalog) = reload_emote_sentiment_scores l (emote_sentiment_scores srv)
      in (\<lparr>success = True, emote_count = new_count\<rparr>, srv\<lparr>emote_sentiment_scores := catalog\<rparr>))"

text \<open>
  \<^verbatim>\<open>websocket_endpoint\<close>, in its two halves. \<open>websocket_open\<close> is the part before the
  waiting loop: the name is normalised, the websocket is registered and the bot is
  started. \<open>websocket_close\<close> is the \<^verbatim>\<open>finally\<close> block: the websocket is removed, and
  the bot is stopped when the streamer has no entry in the registry any more.
\<close>

definition websocket_open ::
  "config \<Rightarrow> bool \<Rightarrow> (websocket \<Rightarrow> bool) \<Rightarrow> task_start \<Rightarrow> websocket \<Rightarrow> string \<Rightarrow> server
     \<Rightarrow> delivery list \<times> server" where
  "websocket_open cfg accepted send_fails spawned ws streamer_name srv =
     (let n = py_strip (py_lower streamer_name)
      in if n = [] then ([], srv)
         else (case connect accepted ws n (active_connections srv) of
                 None \<Rightarrow> ([], srv)
               | Some conns \<Rightarrow>
                   snd (start_twitch_bot cfg send_fails spawned n
                          (srv\<lparr>active_connections := conns\<rparr>))))"

definition websocket_close :: "bool \<Rightarrow> websocket \<Rightarrow> string \<Rightarrow> server \<Rightarrow> server" where
  "websocket_close close_ok ws streamer_name srv =
     (let n = py_strip (py_lower streamer_name);
          srv1 = srv\<lparr>active_connections := disconnect ws n (active_connections srv)\<rparr>
      in if n \<notin> dom (active_connections srv1) then snd (stop_twitch_bot close_ok n srv1)
         else srv1)"

section \<open>Concrete inputs of the examples\<close>

definition example_env :: env where
  "example_env =
     \<lparr>twitch_users = (\<lambda>cid tok login. Failed),
      ffz_room = (\<lambda>channel. Body (Some [Some [\<lparr>ffz_name = Some ''X'', ffz_url1 = Some ''//cdn/x''\<rparr>]])),
      seventv_user = (\<lambda>uid. NotFound),
      seventv_global = Failed\<rparr>"

definition no_emote_globals :: emote_globals where
  "no_emote_globals = \<lparr>seventv_global_cache = None, emote_cache = Map.empty\<rparr>"

definition example_lib :: lib where
  "example_lib =
     \<lparr>csv_file = Some [CsvRow (Some ''LUL'') (Some ''0.5'')],
      parse_float = (\<lambda>s. if s = ''0.5'' then Some (1 / 2) else None),
      vader = (\<lambda>s. None),
      nltk_data_ready = True,
      stop_words = {},
      pos_tag = (\<lambda>ws. Some (map (\<lambda>w. (w, ''NN'')) ws)),
      lemmatize = Some\<rparr>"

definition example_config :: config where
  "example_config = \<lparr>TWITCH_ACCESS_TOKEN = ''oauth:tok'', TWITCH_CLIENT_ID = ''cid''\<rparr>"

definition example_server :: server where
  "example_server =
     \<lparr>emote_sentiment_scores = Map.empty,
      emote_handler =
        \<lparr>seventv_global_cache = Some [''g1'' \<mapsto> ''u1'', ''g2'' \<mapsto> ''u2''],
         emote_cache = Map.empty\<rparr>,
      active_connections = [''foo'' \<mapsto> [3]],
      active_bots = [''foo'' \<mapsto> 0],
      bot_heap = [0 \<mapsto> (new_bot ''foo'')\<lparr>status := Started\<rparr>],
      next_bot = 1\<rparr>"

definition example_event :: raw_event where
  "example_event =
     \<lparr>echo = False, content = Some ''hi LUL'', timestamp = ''2025-01-01T00:00:00'',
      author = ''viewer'', tags = None\<rparr>"

definition example_tagged_event :: raw_event where
  "example_tagged_event =
     \<lparr>echo = False, content = Some ''Kappa hi'', timestamp = ''2025-01-01T00:00:00'',
      author = ''viewer'', tags = Some [''emotes'' \<mapsto> ''25:0-4'']\<rparr>"

definition example_bot :: twitch_bot where
  "example_bot = (new_bot ''foo'')\<lparr>ffz_emotes := [''Kappa'' \<mapsto> ''ffz_url''], status := Started\<rparr>"

definition empty_server :: server where
  "empty_server =
     \<lparr>emote_sentiment_scores = Map.empty,
      emote_handler = \<lparr>seventv_global_cache = None, emote_cache = Map.empty\<rparr>,
      active_connections = Map.empty, active_bots = Map.empty, bot_heap = Map.empty,
      next_bot = 0\<rparr>"

definition trace_subscribed :: server where
  "trace_subscribed =
     snd (websocket_open example_config True (\<lambda>c. False) TaskCreated 3 ''Foo'' empty_server)"

definition trace_send_failed :: server where
  "trace_send_failed =
     snd (event_message example_lib (\<lambda>c. c = 3) 0 example_event trace_subscribed)"

definition trace_closed :: server where
  "trace_closed = websocket_close True 3 ''Foo'' trace_subscribed"


definition example_malformed_tag_event :: raw_event where
  "example_malformed_tag_event =
     \<lparr>echo = False, content = Some ''Kappa hi'', timestamp = ''2025-01-01T00:00:00'',
      author = ''viewer'', tags = Some [''emotes'' \<mapsto> ''x/25:0-4'']\<rparr>"

chapter \<open>Properties\<close>

section \<open>String operations\<close>






section \<open>Emote detection\<close>

lemma detect_words_set:
  "set (detect_words catalog combined ws) =
     {\<lparr>name = w, url = u, sentiment_score = Some sc\<rparr> | w u sc.
        w \<in> set ws \<and> combined w = Some u \<and> catalog w = Some sc}"
  by (induction ws) (auto split: option.splits)

lemma detect_emotes_set:
  "set (detect_emotes_in_message catalog text ffz stv glob) =
     {\<lparr>name = w, url = u, sentiment_score = Some sc\<rparr> | w u sc.
        w \<in> set (py_split text) \<and> (glob ++ ffz ++ stv) w = Some u \<and> catalog w = Some sc}"
  by (simp add: detect_emotes_in_message_def detect_words_set)

lemmas string_eval =
  py_split_def py_isspace_def py_whitespace_def py_lower_def lower_char_def upper_chars_def
  lower_chars_def py_strip_def py_split_on_def py_split_once_def py_int_def digit_val_def
  py_slice_def slice_bound_def py_remove_def int_isspace_def

text \<open>
  Claim C2, as the code has it. A word of the message that is a name of the merged
  mapping is reported exactly when the sentiment catalog has an entry for it, and
  then with the catalog's score; a matching word without a catalog entry is left out
  of the result of \<open>detect_emotes_in_message\<close>.
\<close>

theorem detect_emotes_catalogued:
  assumes "w \<in> set (py_split text)" and "(glob ++ ffz ++ stv) w = Some u"
  shows "(catalog w = Some sc \<longrightarrow>
            \<lparr>name = w, url = u, sentiment_score = Some sc\<rparr>
              \<in> set (detect_emotes_in_message catalog text ffz stv glob))
       \<and> (catalog w = None \<longrightarrow>
            w \<notin> name ` set (detect_emotes_in_message catalog text ffz stv glob))"
  using assms by (auto simp: detect_emotes_set)

theorem detect_emotes_catalogued_witness:
  "''LUL'' \<in> set (py_split ''great play LUL'')
   \<and> (Map.empty ++ [''LUL'' \<mapsto> ''u1''] ++ Map.empty) ''LUL'' = Some ''u1''
   \<and> \<lparr>name = ''LUL'', url = ''u1'', sentiment_score = Some (1 / 2)\<rparr>
        \<in> set (detect_emotes_in_message [''LUL'' \<mapsto> 1 / 2] ''great play LUL''
                 [''LUL'' \<mapsto> ''u1''] Map.empty Map.empty)
   \<and> ''LUL'' \<notin> name ` set (detect_emotes_in_message Map.empty ''great play LUL''
                 [''LUL'' \<mapsto> ''u1''] Map.empty Map.empty)"
proof -
  have tok: "''LUL'' \<in> set (py_split ''great play LUL'')"
    by (simp add: string_eval)
  have look: "(Map.empty ++ [''LUL'' \<mapsto> ''u1''] ++ Map.empty) ''LUL'' = Some ''u1''"
    by simp
  from detect_emotes_catalogued [OF tok look, of "[''LUL'' \<mapsto> 1 / 2]" "1 / 2"]
    detect_emotes_catalogued [OF tok look, of Map.empty]
  show ?thesis using tok look by simp
qed

text \<open>
  The scenario of claim C2 on the code: \<open>LUL\<close> is in the channel mapping at \<open>u1\<close> and
  not in the catalog, and the result holds no detection at all.
\<close>

theorem detect_uncatalogued_counterexample:
  "detect_emotes_in_message Map.empty ''great play LUL'' [''LUL'' \<mapsto> ''u1''] Map.empty Map.empty = []
   \<and> \<lparr>name = ''LUL'', url = ''u1'', sentiment_score = None\<rparr>
        \<notin> set (detect_emotes_in_message Map.empty ''great play LUL''
                  [''LUL'' \<mapsto> ''u1''] Map.empty Map.empty)"
  by (simp add: detect_emotes_in_message_def string_eval)

text \<open>
  Claim C3, as the code has it. The URL of every detection is resolved with the
  precedence 7TV channel mapping, then FFZ mapping, then 7TV global mapping; so a name
  of a channel mapping never resolves to the global URL.
\<close>

theorem merge_precedence:
  assumes "e \<in> set (detect_emotes_in_message catalog text ffz stv glob)"
  shows "(case stv (name e) of
            Some u \<Rightarrow> url e = u
          | None \<Rightarrow>
              (case ffz (name e) of
                 Some u \<Rightarrow> url e = u
               | None \<Rightarrow> glob (name e) = Some (url e)))"
  using assms by (auto simp: detect_emotes_set map_add_def split: option.splits)

theorem merge_precedence_witness:
  "\<lparr>name = ''X'', url = ''c'', sentiment_score = Some 1\<rparr>
     \<in> set (detect_emotes_in_message [''X'' \<mapsto> 1] ''an X'' [''X'' \<mapsto> ''c''] Map.empty [''X'' \<mapsto> ''g''])
   \<and> ([''X'' \<mapsto> ''c''] :: emote_set) ''X'' = Some ''c''
   \<and> (Map.empty :: emote_set) ''X'' = None"
proof -
  have mem: "\<lparr>name = ''X'', url = ''c'', sentiment_score = Some 1\<rparr>
     \<in> set (detect_emotes_in_message [''X'' \<mapsto> 1] ''an X'' [''X'' \<mapsto> ''c''] Map.empty [''X'' \<mapsto> ''g''])"
    by (simp add: detect_emotes_in_message_def string_eval)
  from merge_precedence [OF mem] show ?thesis using mem by simp
qed

text \<open>
  The precedence of claim C3 on the code: a name of both channel mappings resolves to
  the 7TV channel URL, not to the FFZ one.
\<close>

theorem merge_precedence_counterexample:
  "map url (detect_emotes_in_message [''X'' \<mapsto> 1] ''X'' [''X'' \<mapsto> ''ffz_url'']
              [''X'' \<mapsto> ''seventv_url''] Map.empty) = [''seventv_url'']
   \<and> map url (detect_emotes_in_message [''X'' \<mapsto> 1] ''X'' [''X'' \<mapsto> ''ffz_url'']
              [''X'' \<mapsto> ''seventv_url''] Map.empty) \<noteq> [''ffz_url'']"
  by (simp add: detect_emotes_in_message_def string_eval)

section \<open>Fetching the emote mappings\<close>

lemma get_twitch_user_id_no_credentials:
  "client_id = None \<or> client_id = Some [] \<or> token = None \<or> token = Some []
   \<Longrightarrow> get_twitch_user_id e channel_name client_id token = None"
  by (auto simp: get_twitch_user_id_def split: option.splits)

text \<open>
  Claim C5, as the code has it. When the identity lookup returns \<open>None\<close>, the 7TV
  channel mapping is empty, the FFZ mapping is what \<open>get_ffz_emotes\<close> fetches for the
  lower-cased channel name (it does not use the identity), and the global mapping is
  the cached one, or the fetched one when nothing is cached.
\<close>

theorem fetch_all_without_identity:
  assumes "get_twitch_user_id e (py_lower channel_name) client_id token = None"
  shows "fst (fetch_all_emotes_for_channel e channel_name client_id token g) =
           (get_ffz_emotes e (py_lower channel_name),
            Map.empty,
            (case seventv_global_cache g of
               None \<Rightarrow> get_7tv_global_emotes e
             | Some cached \<Rightarrow> cached))"
  using assms by (simp add: fetch_all_emotes_for_channel_def Let_def)

theorem fetch_all_without_identity_witness:
  "get_twitch_user_id example_env (py_lower ''Foo'') None None = None
   \<and> fst (fetch_all_emotes_for_channel example_env ''Foo'' None None no_emote_globals) =
       ([''X'' \<mapsto> ''https://cdn/x''], Map.empty, Map.empty)"
proof -
  have h: "get_twitch_user_id example_env (py_lower ''Foo'') None None = None"
    by (simp add: get_twitch_user_id_def)
  have ffz: "get_ffz_emotes example_env (py_lower ''Foo'') = [''X'' \<mapsto> ''https://cdn/x'']"
    by (simp add: get_ffz_emotes_def example_env_def)
  have glob: "get_7tv_global_emotes example_env = Map.empty"
    by (simp add: get_7tv_global_emotes_def example_env_def)
  from fetch_all_without_identity [OF h, of no_emote_globals]
  show ?thesis using h by (simp add: ffz glob no_emote_globals_def)
qed

text \<open>
  The situation of claim C5 on the code: without credentials the identity lookup
  fails, and the FFZ mapping returned for the channel is not empty.
\<close>

theorem fetch_all_without_identity_counterexample:
  "get_twitch_user_id example_env (py_lower ''Foo'') None None = None
   \<and> fst (fst (fetch_all_emotes_for_channel example_env ''Foo'' None None no_emote_globals))
       ''X'' = Some ''https://cdn/x''
   \<and> fst (fst (fetch_all_emotes_for_channel example_env ''Foo'' None None no_emote_globals))
       \<noteq> Map.empty"
proof -
  have ffz: "get_ffz_emotes example_env (py_lower ''Foo'') = [''X'' \<mapsto> ''https://cdn/x'']"
    by (simp add: get_ffz_emotes_def example_env_def)
  have x: "fst (fst (fetch_all_emotes_for_channel example_env ''Foo'' None None no_emote_globals))
       ''X'' = Some ''https://cdn/x''"
    by (simp add: fetch_all_emotes_for_channel_def Let_def ffz)
  then have "fst (fst (fetch_all_emotes_for_channel example_env ''Foo'' None None no_emote_globals))
       \<noteq> Map.empty"
    by (metis option.distinct(1))
  with x show ?thesis by (simp add: get_twitch_user_id_def)
qed

section \<open>The subscriber registry\<close>

lemma registry_inv_empty: "registry_inv Map.empty"
  by (simp add: registry_inv_def)

lemma registry_inv_connect:
  "registry_inv conns \<Longrightarrow> connect accepted ws n conns = Some conns' \<Longrightarrow> registry_inv conns'"
  by (fastforce simp: registry_inv_def connect_def Let_def split: if_splits)

lemma registry_inv_disconnect:
  "registry_inv conns \<Longrightarrow> registry_inv (disconnect ws n conns)"
  by (auto simp: registry_inv_def disconnect_def Let_def split: option.splits if_splits)

lemma registry_inv_disconnect_all:
  "registry_inv conns \<Longrightarrow> registry_inv (fold (\<lambda>client cs. disconnect client n cs) failed conns)"
  by (induction failed arbitrary: conns) (simp_all add: registry_inv_disconnect)

lemma registry_inv_broadcast:
  "registry_inv conns \<Longrightarrow> registry_inv (fst (broadcast_to_streamer send_fails n conns))"
  by (simp add: broadcast_to_streamer_def Let_def registry_inv_disconnect_all
      split: option.splits)

lemma disconnect_last:
  "conns (py_lower n) = Some [ws] \<Longrightarrow> disconnect ws n conns = conns(py_lower n := None)"
  by (simp add: disconnect_def)

lemma disconnect_unknown:
  "(case conns (py_lower n) of None \<Rightarrow> True | Some clients \<Rightarrow> ws \<notin> set clients)
   \<Longrightarrow> disconnect ws n conns = conns"
  by (simp add: disconnect_def split: option.splits)

lemma registry_inv_listed:
  "registry_inv conns \<Longrightarrow>
     (ch \<in> dom conns) = (\<exists>ws clients. conns ch = Some clients \<and> ws \<in> set clients)"
proof
  assume inv: "registry_inv conns" and "ch \<in> dom conns"
  then obtain clients where c: "conns ch = Some clients" by auto
  with inv have "clients \<noteq> []" by (auto simp: registry_inv_def)
  then obtain ws where "ws \<in> set clients" by (cases clients) auto
  with c show "\<exists>ws clients. conns ch = Some clients \<and> ws \<in> set clients" by blast
next
  assume "\<exists>ws clients. conns ch = Some clients \<and> ws \<in> set clients"
  then show "ch \<in> dom conns" by auto
qed

text \<open>
  Claim C10. The empty registry satisfies the invariant, and \<open>connect\<close>,
  \<open>disconnect\<close> and \<open>broadcast_to_streamer\<close> keep it: every streamer name of
  \<open>active_connections\<close> maps to a non-empty list. \<open>disconnect\<close> deletes the entry
  of a streamer whose only websocket is removed, and changes nothing for a websocket
  that is not registered. Under the invariant a streamer name is a key of the registry
  exactly when it has a websocket.
\<close>

theorem registry_invariant:
  assumes "registry_inv conns"
  shows "registry_inv Map.empty
       \<and> (case connect accepted ws n conns of None \<Rightarrow> True | Some conns' \<Rightarrow> registry_inv conns')
       \<and> registry_inv (disconnect ws n conns)
       \<and> registry_inv (fst (broadcast_to_streamer send_fails n conns))
       \<and> (conns (py_lower n) = Some [ws] \<longrightarrow> disconnect ws n conns = conns(py_lower n := None))
       \<and> ((case conns (py_lower n) of None \<Rightarrow> True | Some clients \<Rightarrow> ws \<notin> set clients)
            \<longrightarrow> disconnect ws n conns = conns)
       \<and> ((ch \<in> dom conns) = (\<exists>w clients. conns ch = Some clients \<and> w \<in> set clients))"
proof -
  have "case connect accepted ws n conns of None \<Rightarrow> True | Some conns' \<Rightarrow> registry_inv conns'"
    using assms by (auto split: option.splits dest: registry_inv_connect)
  moreover have "(ch \<in> dom conns) = (\<exists>w clients. conns ch = Some clients \<and> w \<in> set clients)"
    using assms by (rule registry_inv_listed)
  ultimately show ?thesis
    using assms
    by (simp add: registry_inv_empty registry_inv_disconnect registry_inv_broadcast
        disconnect_last disconnect_unknown)
qed

theorem registry_invariant_witness:
  "registry_inv [''foo'' \<mapsto> [3]]
   \<and> connect True 4 ''Foo'' [''foo'' \<mapsto> [3]] = Some [''foo'' \<mapsto> [3, 4]]
   \<and> registry_inv [''foo'' \<mapsto> [3, 4]]
   \<and> disconnect 3 ''Foo'' [''foo'' \<mapsto> [3]] = Map.empty
   \<and> disconnect 7 ''Foo'' [''foo'' \<mapsto> [3]] = [''foo'' \<mapsto> [3]]
   \<and> registry_inv (fst (broadcast_to_streamer (\<lambda>c. c = 3) ''Foo'' [''foo'' \<mapsto> [3]]))
   \<and> ''foo'' \<in> dom [''foo'' \<mapsto> [3::nat]]"
proof -
  have h: "registry_inv [''foo'' \<mapsto> [3]]"
    by (simp add: registry_inv_def)
  have l: "py_lower ''Foo'' = ''foo''"
    by (simp add: string_eval)
  have c: "connect True 4 ''Foo'' [''foo'' \<mapsto> [3]] = Some [''foo'' \<mapsto> [3, 4]]"
    by (simp add: connect_def l)
  from registry_invariant [OF h, where accepted = True and ws = 4 and n = "''Foo''"
      and send_fails = "\<lambda>c. c = 3" and ch = "''foo''"]
    registry_invariant [OF h, where accepted = True and ws = 3 and n = "''Foo''"
      and send_fails = "\<lambda>c. c = 3" and ch = "''foo''"]
    registry_invariant [OF h, where accepted = True and ws = 7 and n = "''Foo''"
      and send_fails = "\<lambda>c. c = 3" and ch = "''foo''"]
  show ?thesis using h by (simp add: c l)
qed

section \<open>The reload endpoint\<close>

lemma example_reload_catalog:
  "load_emote_sentiment_scores example_lib Map.empty = [''LUL'' \<mapsto> 1 / 2]"
  by (simp add: load_emote_sentiment_scores_def example_lib_def)

text \<open>
  Claim C4, as the code has it. The reload endpoint replaces the sentiment catalog by
  what the CSV file holds and returns the number of its entries; the globals of
  \<open>emote_handler\<close> (the global emote cache among them), the registry and the bots
  stay as they are.
\<close>

theorem reload_replaces_catalog_only:
  "emote_sentiment_scores (snd (reload_emoji_sentiments l srv)) =
     load_emote_sentiment_scores l Map.empty
   \<and> emote_count (fst (reload_emoji_sentiments l srv)) =
       card (dom (emote_sentiment_scores (snd (reload_emoji_sentiments l srv))))
   \<and> success (fst (reload_emoji_sentiments l srv))
   \<and> emote_handler (snd (reload_emoji_sentiments l srv)) = emote_handler srv
   \<and> active_connections (snd (reload_emoji_sentiments l srv)) = active_connections srv
   \<and> active_bots (snd (reload_emoji_sentiments l srv)) = active_bots srv
   \<and> bot_heap (snd (reload_emoji_sentiments l srv)) = bot_heap srv"
  by (simp add: reload_emoji_sentiments_def reload_emote_sentiment_scores_def Let_def)

theorem reload_replaces_catalog_only_witness:
  "emote_sentiment_scores (snd (reload_emoji_sentiments example_lib example_server)) =
     [''LUL'' \<mapsto> 1 / 2]
   \<and> emote_count (fst (reload_emoji_sentiments example_lib example_server)) = 1
   \<and> emote_handler (snd (reload_emoji_sentiments example_lib example_server)) =
       emote_handler example_server"
  using reload_replaces_catalog_only [of example_lib example_server]
  by (simp add: example_reload_catalog)

text \<open>
  The reload of claim C4 on the code: the global emote cache holds two entries before
  the reload and the same two afterwards, a fetch after the reload returns the cached
  mapping although the global source would now answer differently, and the count that
  is returned is that of the sentiment catalog.
\<close>

theorem reload_keeps_global_cache_counterexample:
  "seventv_global_cache (emote_handler (snd (reload_emoji_sentiments example_lib example_server)))
     = Some [''g1'' \<mapsto> ''u1'', ''g2'' \<mapsto> ''u2'']
   \<and> seventv_global_cache (emote_handler (snd (reload_emoji_sentiments example_lib example_server)))
     \<noteq> None
   \<and> snd (snd (fst (fetch_all_emotes_for_channel example_env ''foo'' None None
         (emote_handler (snd (reload_emoji_sentiments example_lib example_server))))))
     = [''g1'' \<mapsto> ''u1'', ''g2'' \<mapsto> ''u2'']
   \<and> get_7tv_global_emotes example_env = Map.empty
   \<and> emote_count (fst (reload_emoji_sentiments example_lib example_server)) = 1"
proof -
  have keep: "emote_handler (snd (reload_emoji_sentiments example_lib example_server)) =
      \<lparr>seventv_global_cache = Some [''g1'' \<mapsto> ''u1'', ''g2'' \<mapsto> ''u2''],
       emote_cache = Map.empty\<rparr>"
    by (simp add: reload_emoji_sentiments_def reload_emote_sentiment_scores_def Let_def
        example_server_def)
  have count: "emote_count (fst (reload_emoji_sentiments example_lib example_server)) = 1"
    by (simp add: reload_emoji_sentiments_def reload_emote_sentiment_scores_def Let_def
        example_reload_catalog)
  have glob: "get_7tv_global_emotes example_env = Map.empty"
    by (simp add: get_7tv_global_emotes_def example_env_def)
  show ?thesis
    by (simp add: keep count glob fetch_all_emotes_for_channel_def Let_def)
qed

section \<open>Merging native tags and custom detections\<close>

lemma filter_distinct_key:
  "distinct (map f xs) \<Longrightarrow> x \<in> set xs \<Longrightarrow> filter (\<lambda>e. f e = f x) xs = [x]"
proof (induction xs)
  case Nil
  then show ?case by simp
next
  case (Cons a xs)
  show ?case
  proof (cases "a = x")
    case True
    with Cons.prems have "f x \<notin> f ` set xs" by simp
    then have "\<forall>e\<in>set xs. f e \<noteq> f x" by (metis imageI)
    then have "filter (\<lambda>e. f e = f x) xs = []" by (simp add: filter_empty_conv)
    with True show ?thesis by simp
  next
    case False
    with Cons.prems have x: "x \<in> set xs" and d: "distinct (map f xs)" by auto
    with Cons.prems have "f a \<noteq> f x" by auto
    with Cons.IH [OF d x] show ?thesis by simp
  qed
qed

lemma twitch_loop_inv:
  "twitch_emotes_loop text sw ps (det, proc) = (det', proc') \<Longrightarrow>
   proc = d_name ` set det \<Longrightarrow> distinct (map d_name det) \<Longrightarrow>
   proc' = d_name ` set det' \<and> distinct (map d_name det')"
proof (induction ps arbitrary: det proc)
  case Nil
  then show ?case by auto
next
  case (Cons p ps)
  show ?case
  proof (cases "parse_emote_part p")
    case None
    with Cons.prems show ?thesis by auto
  next
    case (Some r)
    obtain i a b where r: "r = (i, a, b)" by (cases r) auto
    show ?thesis
    proof (cases "py_slice text a (b + 1) \<in> proc")
      case True
      with Cons.prems Some r have "twitch_emotes_loop text sw ps (det, proc) = (det', proc')"
        by simp
      from Cons.IH [OF this Cons.prems(2) Cons.prems(3)] show ?thesis .
    next
      case False
      let ?e = "\<lparr>d_name = py_slice text a (b + 1), d_url = twitch_emote_url i,
                 d_type = ''twitch'', d_sentiment_score = sw (py_slice text a (b + 1))\<rparr>"
      from False Cons.prems Some r
      have run: "twitch_emotes_loop text sw ps (det @ [?e], insert (py_slice text a (b + 1)) proc)
                   = (det', proc')"
        by (simp add: Let_def)
      have p1: "insert (py_slice text a (b + 1)) proc = d_name ` set (det @ [?e])"
        using Cons.prems(2) by auto
      have p2: "distinct (map d_name (det @ [?e]))"
        using Cons.prems(2,3) False by auto
      from Cons.IH [OF run p1 p2] show ?thesis .
    qed
  qed
qed

lemma twitch_loop_mono:
  "twitch_emotes_loop text sw ps (det, proc) = (det', proc') \<Longrightarrow> proc \<subseteq> proc'"
proof (induction ps arbitrary: det proc)
  case Nil
  then show ?case by auto
next
  case (Cons p ps)
  show ?case
  proof (cases "parse_emote_part p")
    case None
    with Cons.prems show ?thesis by auto
  next
    case (Some r)
    obtain i a b where r: "r = (i, a, b)" by (cases r) auto
    show ?thesis
    proof (cases "py_slice text a (b + 1) \<in> proc")
      case True
      with Cons.prems Some r have "twitch_emotes_loop text sw ps (det, proc) = (det', proc')"
        by simp
      from Cons.IH [OF this] show ?thesis .
    next
      case False
      with Cons.prems Some r
      have "twitch_emotes_loop text sw ps
              (det @ [\<lparr>d_name = py_slice text a (b + 1), d_url = twitch_emote_url i,
                 d_type = ''twitch'', d_sentiment_score = sw (py_slice text a (b + 1))\<rparr>],
               insert (py_slice text a (b + 1)) proc) = (det', proc')"
        by (simp add: Let_def)
      from Cons.IH [OF this] show ?thesis by auto
    qed
  qed
qed

lemma twitch_loop_kind:
  "twitch_emotes_loop text sw ps (det, proc) = (det', proc') \<Longrightarrow>
   \<forall>e\<in>set det. d_type e = ''twitch'' \<and> (\<exists>i. d_url e = twitch_emote_url i) \<Longrightarrow>
   \<forall>e\<in>set det'. d_type e = ''twitch'' \<and> (\<exists>i. d_url e = twitch_emote_url i)"
proof (induction ps arbitrary: det proc)
  case Nil
  then show ?case by auto
next
  case (Cons p ps)
  show ?case
  proof (cases "parse_emote_part p")
    case None
    with Cons.prems show ?thesis by auto
  next
    case (Some r)
    obtain i a b where r: "r = (i, a, b)" by (cases r) auto
    show ?thesis
    proof (cases "py_slice text a (b + 1) \<in> proc")
      case True
      with Cons.prems Some r have "twitch_emotes_loop text sw ps (det, proc) = (det', proc')"
        by simp
      from Cons.IH [OF this Cons.prems(2)] show ?thesis .
    next
      case False
      let ?e = "\<lparr>d_name = py_slice text a (b + 1), d_url = twitch_emote_url i,
                 d_type = ''twitch'', d_sentiment_score = sw (py_slice text a (b + 1))\<rparr>"
      from False Cons.prems Some r
      have run: "twitch_emotes_loop text sw ps (det @ [?e], insert (py_slice text a (b + 1)) proc)
                   = (det', proc')"
        by (simp add: Let_def)
      have "\<forall>e\<in>set (det @ [?e]). d_type e = ''twitch'' \<and> (\<exists>i. d_url e = twitch_emote_url i)"
        using Cons.prems(2) by auto
      from Cons.IH [OF run this] show ?thesis .
    qed
  qed
qed

lemma twitch_loop_append:
  "list_all (\<lambda>p. parse_emote_part p \<noteq> None) pre \<Longrightarrow>
   twitch_emotes_loop text sw (pre @ rest) st =
     twitch_emotes_loop text sw rest (twitch_emotes_loop text sw pre st)"
proof (induction pre arbitrary: st)
  case Nil
  then show ?case by simp
next
  case (Cons p pre)
  obtain det proc where st: "st = (det, proc)" by (cases st) auto
  from Cons.prems obtain i a b where r: "parse_emote_part p = Some (i, a, b)"
    by (cases "parse_emote_part p") auto
  from Cons.prems have rest: "list_all (\<lambda>p. parse_emote_part p \<noteq> None) pre" by simp
  show ?case
    using Cons.IH [OF rest] by (simp add: st r Let_def)
qed

lemma twitch_loop_reports:
  assumes "parse_emote_part part = Some (i, a, b)"
    and "twitch_emotes_loop text sw (part # post) (det, proc) = (det', proc')"
  shows "py_slice text a (b + 1) \<in> proc'"
proof (cases "py_slice text a (b + 1) \<in> proc")
  case True
  with assms have "twitch_emotes_loop text sw post (det, proc) = (det', proc')" by simp
  from twitch_loop_mono [OF this] True show ?thesis by auto
next
  case False
  with assms
  have "twitch_emotes_loop text sw post
          (det @ [\<lparr>d_name = py_slice text a (b + 1), d_url = twitch_emote_url i,
             d_type = ''twitch'', d_sentiment_score = sw (py_slice text a (b + 1))\<rparr>],
           insert (py_slice text a (b + 1)) proc) = (det', proc')"
    by (simp add: Let_def)
  from twitch_loop_mono [OF this] show ?thesis by auto
qed

lemma custom_loop_inv:
  "custom_emotes_loop sw cs (det, proc) = (det', proc') \<Longrightarrow>
   proc = d_name ` set det \<Longrightarrow> distinct (map d_name det) \<Longrightarrow>
   proc' = d_name ` set det' \<and> distinct (map d_name det')"
proof (induction cs arbitrary: det proc)
  case Nil
  then show ?case by auto
next
  case (Cons c cs)
  show ?case
  proof (cases "name c \<in> proc")
    case True
    with Cons.prems have "custom_emotes_loop sw cs (det, proc) = (det', proc')" by simp
    from Cons.IH [OF this Cons.prems(2) Cons.prems(3)] show ?thesis .
  next
    case False
    let ?e = "\<lparr>d_name = name c, d_url = url c, d_type = ''custom'',
               d_sentiment_score = sw (name c)\<rparr>"
    from False Cons.prems
    have run: "custom_emotes_loop sw cs (det @ [?e], insert (name c) proc) = (det', proc')"
      by simp
    have p1: "insert (name c) proc = d_name ` set (det @ [?e])"
      using Cons.prems(2) by auto
    have p2: "distinct (map d_name (det @ [?e]))"
      using Cons.prems(2,3) False by auto
    from Cons.IH [OF run p1 p2] show ?thesis .
  qed
qed

lemma custom_loop_mono:
  "custom_emotes_loop sw cs (det, proc) = (det', proc') \<Longrightarrow> proc \<subseteq> proc'"
proof (induction cs arbitrary: det proc)
  case Nil
  then show ?case by auto
next
  case (Cons c cs)
  show ?case
  proof (cases "name c \<in> proc")
    case True
    with Cons.prems have "custom_emotes_loop sw cs (det, proc) = (det', proc')" by simp
    from Cons.IH [OF this] show ?thesis .
  next
    case False
    with Cons.prems
    have "custom_emotes_loop sw cs
            (det @ [\<lparr>d_name = name c, d_url = url c, d_type = ''custom'',
               d_sentiment_score = sw (name c)\<rparr>], insert (name c) proc) = (det', proc')"
      by simp
    from Cons.IH [OF this] show ?thesis by auto
  qed
qed

lemma custom_loop_keeps:
  "custom_emotes_loop sw cs (det, proc) = (det', proc') \<Longrightarrow>
   e \<in> set det' \<Longrightarrow> d_name e \<in> proc \<Longrightarrow> e \<in> set det"
proof (induction cs arbitrary: det proc)
  case Nil
  then show ?case by auto
next
  case (Cons c cs)
  show ?case
  proof (cases "name c \<in> proc")
    case True
    with Cons.prems have "custom_emotes_loop sw cs (det, proc) = (det', proc')" by simp
    from Cons.IH [OF this Cons.prems(2) Cons.prems(3)] show ?thesis .
  next
    case False
    let ?e = "\<lparr>d_name = name c, d_url = url c, d_type = ''custom'',
               d_sentiment_score = sw (name c)\<rparr>"
    from False Cons.prems
    have run: "custom_emotes_loop sw cs (det @ [?e], insert (name c) proc) = (det', proc')"
      by simp
    from Cons.prems(3) have "d_name e \<in> insert (name c) proc" by simp
    from Cons.IH [OF run Cons.prems(2) this] have "e \<in> set (det @ [?e])" .
    moreover from Cons.prems(3) False have "e \<noteq> ?e" by auto
    ultimately show ?thesis by simp
  qed
qed

lemma parse_emote_part_empty: "parse_emote_part [] = None"
  by (simp add: parse_emote_part_def py_split_once_def)

lemma enrich_detected:
  "p_detected_emotes (enrich l catalog tb ev text) =
     all_detected_emotes text (snd (analyze_sentiment l catalog text)) (tags ev)
       (detect_emotes_in_message catalog text (ffz_emotes tb) (seventv_channel_emotes tb)
          (seventv_global_emotes tb))"
  by (simp add: enrich_def Let_def split: prod.splits)

text \<open>
  Claim C7, as the code has it. Let a part of the \<^verbatim>\<open>emotes\<close> tag be reached by the
  loop, which is the case when every part before it can be read, and let it name, by
  its first range, the piece \<open>n\<close> of the message; let \<open>n\<close> also be the name of a custom
  detection. Then the list of detected emotes of the enriched message has exactly one
  entry named \<open>n\<close>, and this entry has the type \<^verbatim>\<open>twitch\<close> and a URL of the Twitch
  CDN.
\<close>

theorem native_tag_precedence:
  assumes tg: "tags ev = Some t" and em: "t ''emotes'' = Some emote_tag"
    and split: "py_split_on CHR ''/'' emote_tag = pre @ part # post"
    and pre: "list_all (\<lambda>p. parse_emote_part p \<noteq> None) pre"
    and part: "parse_emote_part part = Some (emote_id, start, stop)"
    and slice: "py_slice text start (stop + 1) = n"
    and custom: "n \<in> name ` set (detect_emotes_in_message catalog text (ffz_emotes tb)
                     (seventv_channel_emotes tb) (seventv_global_emotes tb))"
  shows "\<exists>e. filter (\<lambda>d. d_name d = n) (p_detected_emotes (enrich l catalog tb ev text)) = [e]
           \<and> d_type e = ''twitch'' \<and> (\<exists>i. d_url e = twitch_emote_url i)"
proof -
  define sw where "sw = snd (analyze_sentiment l catalog text)"
  define cs where "cs = detect_emotes_in_message catalog text (ffz_emotes tb)
                     (seventv_channel_emotes tb) (seventv_global_emotes tb)"
  have nonempty: "emote_tag \<noteq> []"
  proof
    assume "emote_tag = []"
    with split have "pre @ part # post = [[]]" by (simp add: py_split_on_def)
    then have "part = []" by (cases pre) auto
    with part show False by (simp add: parse_emote_part_empty)
  qed
  obtain det0 proc0 where l0: "twitch_emotes_loop text sw pre ([], {}) = (det0, proc0)"
    by (cases "twitch_emotes_loop text sw pre ([], {})") auto
  obtain det1 proc1 where
    l1: "twitch_emotes_loop text sw (part # post) (det0, proc0) = (det1, proc1)"
    by (cases "twitch_emotes_loop text sw (part # post) (det0, proc0)") auto
  have whole: "twitch_emotes_loop text sw (pre @ part # post) ([], {}) = (det1, proc1)"
    using twitch_loop_append [OF pre] l0 l1 by simp
  have tw: "twitch_tag_emotes text sw (tags ev) = (det1, proc1)"
    using tg em nonempty split whole by (simp add: twitch_tag_emotes_def)
  from twitch_loop_inv [OF whole] have inv1: "proc1 = d_name ` set det1"
    and dist1: "distinct (map d_name det1)" by auto
  from twitch_loop_kind [OF whole]
  have kind1: "\<forall>e\<in>set det1. d_type e = ''twitch'' \<and> (\<exists>i. d_url e = twitch_emote_url i)"
    by simp
  from twitch_loop_reports [OF part l1] slice have n1: "n \<in> proc1" by simp
  obtain det2 proc2 where l2: "custom_emotes_loop sw cs (det1, proc1) = (det2, proc2)"
    by (cases "custom_emotes_loop sw cs (det1, proc1)") auto
  from custom_loop_inv [OF l2 inv1 dist1] have inv2: "proc2 = d_name ` set det2"
    and dist2: "distinct (map d_name det2)" by auto
  from custom_loop_mono [OF l2] n1 inv2 obtain e where e: "e \<in> set det2" "d_name e = n"
    by auto
  from custom_loop_keeps [OF l2 e(1)] e(2) n1 have "e \<in> set det1" by simp
  with kind1 have k: "d_type e = ''twitch'' \<and> (\<exists>i. d_url e = twitch_emote_url i)" by simp
  from filter_distinct_key [OF dist2 e(1)] e(2)
  have "filter (\<lambda>d. d_name d = n) det2 = [e]" by simp
  moreover have "p_detected_emotes (enrich l catalog tb ev text) = det2"
    by (simp add: enrich_detected all_detected_emotes_def tw l2 sw_def [symmetric] cs_def [symmetric])
  ultimately show ?thesis using k by auto
qed

lemma example_kappa_sentiment: "analyze_sentiment example_lib [''Kappa'' \<mapsto> 1 / 2] ''Kappa hi'' = (None, [''Kappa'' \<mapsto> 1 / 2])"
  by (simp add: analyze_sentiment_def example_lib_def string_eval Let_def)

lemma example_kappa_part: "parse_emote_part ''25:0-4'' = Some (''25'', 0, 4)"
  by (simp add: parse_emote_part_def string_eval)

lemma example_kappa_custom: "detect_emotes_in_message [''Kappa'' \<mapsto> 1 / 2] ''Kappa hi'' (ffz_emotes example_bot)
                     (seventv_channel_emotes example_bot) (seventv_global_emotes example_bot)
   = [\<lparr>name = ''Kappa'', url = ''ffz_url'', sentiment_score = Some (1 / 2)\<rparr>]"
  by (simp add: detect_emotes_in_message_def example_bot_def new_bot_def string_eval)

lemma example_kappa_detected: "p_detected_emotes (enrich example_lib [''Kappa'' \<mapsto> 1 / 2] example_bot example_tagged_event ''Kappa hi'')
  = [\<lparr>d_name = ''Kappa'', d_url = ''https://static-cdn.jtvnw.net/emoticons/v2/25/default/dark/1.0'',
       d_type = ''twitch'', d_sentiment_score = Some (1 / 2)\<rparr>]"
  by (simp add: enrich_detected example_kappa_sentiment example_kappa_custom all_detected_emotes_def twitch_tag_emotes_def
       example_tagged_event_def example_kappa_part py_split_on_def py_slice_def slice_bound_def twitch_emote_url_def
       Let_def)

theorem native_tag_precedence_witness:
  "tags example_tagged_event = Some [''emotes'' \<mapsto> ''25:0-4'']
   \<and> py_split_on CHR ''/'' ''25:0-4'' = [] @ ''25:0-4'' # []
   \<and> parse_emote_part ''25:0-4'' = Some (''25'', 0, 4)
   \<and> py_slice ''Kappa hi'' 0 (4 + 1) = ''Kappa''
   \<and> ''Kappa'' \<in> name ` set (detect_emotes_in_message [''Kappa'' \<mapsto> 1 / 2] ''Kappa hi''
         (ffz_emotes example_bot) (seventv_channel_emotes example_bot)
         (seventv_global_emotes example_bot))
   \<and> p_detected_emotes (enrich example_lib [''Kappa'' \<mapsto> 1 / 2] example_bot
         example_tagged_event ''Kappa hi'')
       = [\<lparr>d_name = ''Kappa'',
            d_url = ''https://static-cdn.jtvnw.net/emoticons/v2/25/default/dark/1.0'',
            d_type = ''twitch'', d_sentiment_score = Some (1 / 2)\<rparr>]
   \<and> (\<exists>e. filter (\<lambda>d. d_name d = ''Kappa'')
             (p_detected_emotes (enrich example_lib [''Kappa'' \<mapsto> 1 / 2] example_bot
                example_tagged_event ''Kappa hi'')) = [e]
          \<and> d_type e = ''twitch'' \<and> (\<exists>i. d_url e = twitch_emote_url i))"
proof -
  have h1: "tags example_tagged_event = Some [''emotes'' \<mapsto> ''25:0-4'']"
    by (simp add: example_tagged_event_def)
  have h2: "[''emotes'' \<mapsto> ''25:0-4''] ''emotes'' = Some ''25:0-4''"
    by simp
  have h3: "py_split_on CHR ''/'' ''25:0-4'' = [] @ ''25:0-4'' # []"
    by (simp add: py_split_on_def)
  have h4: "list_all (\<lambda>p. parse_emote_part p \<noteq> None) []"
    by simp
  have h6: "py_slice ''Kappa hi'' 0 (4 + 1) = ''Kappa''"
    by (simp add: py_slice_def slice_bound_def)
  have h7: "''Kappa'' \<in> name ` set (detect_emotes_in_message [''Kappa'' \<mapsto> 1 / 2] ''Kappa hi''
         (ffz_emotes example_bot) (seventv_channel_emotes example_bot)
         (seventv_global_emotes example_bot))"
    by (simp add: example_kappa_custom)
  note c = native_tag_precedence [OF h1 h2 h3 h4 example_kappa_part h6 h7, of example_lib]
  show ?thesis
    using h1 h3 example_kappa_part h6 h7 example_kappa_detected c by blast
qed

lemma parse_emote_part_x: "parse_emote_part ''x'' = None"
  by (simp add: parse_emote_part_def py_split_once_def)

lemma example_malformed_detected:
  "p_detected_emotes (enrich example_lib [''Kappa'' \<mapsto> 1 / 2] example_bot
       example_malformed_tag_event ''Kappa hi'')
   = [\<lparr>d_name = ''Kappa'', d_url = ''ffz_url'', d_type = ''custom'',
        d_sentiment_score = Some (1 / 2)\<rparr>]"
  by (simp add: enrich_detected example_kappa_sentiment example_kappa_custom
      all_detected_emotes_def twitch_tag_emotes_def example_malformed_tag_event_def
      parse_emote_part_x py_split_on_def Let_def)

text \<open>
  The situation of claim C7 on the code, with an unreadable part in front: the tag
  \<^verbatim>\<open>x/25:0-4\<close> reports \<open>Kappa\<close> at the positions 0 to 4, and \<open>Kappa\<close> is a custom
  detection as well. The first part raises, the \<^verbatim>\<open>try\<close> block around the loop ends
  the reading of the tag, and the one entry for \<open>Kappa\<close> has the type \<^verbatim>\<open>custom\<close> and
  the FFZ URL.
\<close>

theorem native_tag_after_unreadable_part_counterexample:
  "tags example_malformed_tag_event = Some [''emotes'' \<mapsto> ''x/25:0-4'']
   \<and> py_split_on CHR ''/'' ''x/25:0-4'' = [''x'', ''25:0-4'']
   \<and> parse_emote_part ''25:0-4'' = Some (''25'', 0, 4)
   \<and> py_slice ''Kappa hi'' 0 (4 + 1) = ''Kappa''
   \<and> ''Kappa'' \<in> name ` set (detect_emotes_in_message [''Kappa'' \<mapsto> 1 / 2] ''Kappa hi''
         (ffz_emotes example_bot) (seventv_channel_emotes example_bot)
         (seventv_global_emotes example_bot))
   \<and> p_detected_emotes (enrich example_lib [''Kappa'' \<mapsto> 1 / 2] example_bot
         example_malformed_tag_event ''Kappa hi'')
       = [\<lparr>d_name = ''Kappa'', d_url = ''ffz_url'', d_type = ''custom'',
            d_sentiment_score = Some (1 / 2)\<rparr>]
   \<and> filter (\<lambda>d. d_name d = ''Kappa'' \<and> d_type d = ''twitch'')
         (p_detected_emotes (enrich example_lib [''Kappa'' \<mapsto> 1 / 2] example_bot
            example_malformed_tag_event ''Kappa hi'')) = []"
proof -
  have h1: "tags example_malformed_tag_event = Some [''emotes'' \<mapsto> ''x/25:0-4'']"
    by (simp add: example_malformed_tag_event_def)
  have h2: "py_split_on CHR ''/'' ''x/25:0-4'' = [''x'', ''25:0-4'']"
    by (simp add: py_split_on_def)
  have h3: "py_slice ''Kappa hi'' 0 (4 + 1) = ''Kappa''"
    by (simp add: py_slice_def slice_bound_def)
  have h4: "''Kappa'' \<in> name ` set (detect_emotes_in_message [''Kappa'' \<mapsto> 1 / 2] ''Kappa hi''
         (ffz_emotes example_bot) (seventv_channel_emotes example_bot)
         (seventv_global_emotes example_bot))"
    by (simp add: example_kappa_custom)
  have h5: "filter (\<lambda>d. d_name d = ''Kappa'' \<and> d_type d = ''twitch'')
         (p_detected_emotes (enrich example_lib [''Kappa'' \<mapsto> 1 / 2] example_bot
            example_malformed_tag_event ''Kappa hi'')) = []"
    by (simp add: example_malformed_detected)
  from h1 h2 example_kappa_part h3 h4 example_malformed_detected h5 show ?thesis
    by (intro conjI)
qed

section \<open>Enrichment of a chat message\<close>


lemma event_message_frame:
  "bot_heap (snd (event_message l send_fails self ev srv)) = bot_heap srv
   \<and> active_bots (snd (event_message l send_fails self ev srv)) = active_bots srv
   \<and> emote_sentiment_scores (snd (event_message l send_fails self ev srv)) = emote_sentiment_scores srv
   \<and> emote_handler (snd (event_message l send_fails self ev srv)) = emote_handler srv
   \<and> next_bot (snd (event_message l send_fails self ev srv)) = next_bot srv"
  by (simp add: event_message_def Let_def split: option.splits prod.splits)


lemma analyze_sentiment_vader_raises:
  "vader l text = None \<Longrightarrow> text \<noteq> [] \<Longrightarrow> fst (analyze_sentiment l catalog text) = None"
  by (simp add: analyze_sentiment_def Let_def)

lemma extract_keywords_raises:
  "\<forall>ws. pos_tag l ws = None \<Longrightarrow> extract_keywords l text n = []"
  by (simp add: extract_keywords_def Let_def)

lemma vader_word_scores_raised:
  "vader_word_scores polarity ws sc = Inl partial \<Longrightarrow> \<exists>w\<in>set ws. polarity w = None"
  by (induction ws arbitrary: sc) (auto split: if_splits option.splits)









lemma example_keywords: "extract_keywords example_lib ''hi LUL'' 5 = [''hi'', ''lul'']"
  by code_simp

lemma example_sentiment: "analyze_sentiment example_lib Map.empty ''hi LUL'' = (None, Map.empty)"
  by (simp add: analyze_sentiment_def example_lib_def string_eval Let_def)

lemma example_enriched:
  "enrich example_lib Map.empty ((new_bot ''foo'')\<lparr>status := Started\<rparr>) example_event ''hi LUL'' =
     \<lparr>p_timestamp = ''2025-01-01T00:00:00'', p_author = ''viewer'', p_content = ''hi LUL'',
      p_tags = None, p_sentiment_score = None, p_sentiment_words = Map.empty,
      p_keywords = [''hi'', ''lul''], p_detected_emotes = []\<rparr>"
  by (simp add: enrich_def example_keywords example_sentiment example_event_def
      detect_emotes_in_message_def all_detected_emotes_def twitch_tag_emotes_def new_bot_def
      py_split_def py_isspace_def py_whitespace_def)







section \<open>Determinism of the enrichment\<close>

lemma enrich_snapshot:
  "ffz_emotes t1 = ffz_emotes t2 \<Longrightarrow>
   seventv_channel_emotes t1 = seventv_channel_emotes t2 \<Longrightarrow>
   seventv_global_emotes t1 = seventv_global_emotes t2 \<Longrightarrow>
   enrich l catalog t1 ev text = enrich l catalog t2 ev text"
  by (simp add: enrich_def)

lemma event_message_messages:
  "bot_heap srv self = Some tb \<Longrightarrow>
   map fst (fst (event_message l send_fails self ev srv)) =
     (if echo ev then []
      else (case content ev of
              None \<Rightarrow> []
            | Some text \<Rightarrow>
                if text = [] then []
                else [ChatMessage (enrich l (emote_sentiment_scores srv) tb ev text)]))"
  by (simp add: event_message_def Let_def split: option.splits prod.splits)

text \<open>
  Claim C9. The messages that \<open>event_message\<close> sends for an event are determined by
  the event, the three emote mappings of the bot and the sentiment catalog: two runs
  that agree on these send the same enriched message, whatever the registry and the
  outcome of the sends are. A run changes neither the bots nor the catalog, so a second
  run on the process the first one left sends the same message again.
\<close>

theorem enrichment_deterministic:
  assumes "bot_heap s1 b1 = Some t1" and "bot_heap s2 b2 = Some t2"
    and "ffz_emotes t1 = ffz_emotes t2"
    and "seventv_channel_emotes t1 = seventv_channel_emotes t2"
    and "seventv_global_emotes t1 = seventv_global_emotes t2"
    and "emote_sentiment_scores s1 = emote_sentiment_scores s2"
  shows "map fst (fst (event_message l f1 b1 ev s1)) = map fst (fst (event_message l f2 b2 ev s2))
       \<and> map fst (fst (event_message l f2 b1 ev (snd (event_message l f1 b1 ev s1))))
           = map fst (fst (event_message l f1 b1 ev s1))"
proof -
  have same: "\<And>text. enrich l (emote_sentiment_scores s1) t1 ev text =
                        enrich l (emote_sentiment_scores s2) t2 ev text"
    unfolding assms(6) by (rule enrich_snapshot [OF assms(3-5)])
  have first: "map fst (fst (event_message l f1 b1 ev s1)) =
                 map fst (fst (event_message l f2 b2 ev s2))"
    by (simp add: event_message_messages [OF assms(1)] event_message_messages [OF assms(2)] same
        split: option.splits)
  let ?s = "snd (event_message l f1 b1 ev s1)"
  have heap: "bot_heap ?s b1 = Some t1"
    using assms(1) by (simp add: event_message_frame)
  have "map fst (fst (event_message l f2 b1 ev ?s)) = map fst (fst (event_message l f1 b1 ev s1))"
    by (simp add: event_message_messages [OF assms(1)] event_message_messages [OF heap]
        event_message_frame split: option.splits)
  with first show ?thesis by simp
qed

theorem enrichment_deterministic_witness:
  "bot_heap example_server 0 = Some ((new_bot ''foo'')\<lparr>status := Started\<rparr>)
   \<and> bot_heap (example_server\<lparr>active_connections := Map.empty\<rparr>) 0
       = Some ((new_bot ''foo'')\<lparr>status := Started\<rparr>)
   \<and> map fst (fst (event_message example_lib (\<lambda>c. False) 0 example_event example_server))
       = map fst (fst (event_message example_lib (\<lambda>c. True) 0 example_event
                         (example_server\<lparr>active_connections := Map.empty\<rparr>)))
   \<and> map fst (fst (event_message example_lib (\<lambda>c. False) 0 example_event example_server))
       = [ChatMessage
           \<lparr>p_timestamp = ''2025-01-01T00:00:00'', p_author = ''viewer'',
            p_content = ''hi LUL'', p_tags = None, p_sentiment_score = None,
            p_sentiment_words = Map.empty, p_keywords = [''hi'', ''lul''],
            p_detected_emotes = []\<rparr>]"
proof -
  have b1: "bot_heap example_server 0 = Some ((new_bot ''foo'')\<lparr>status := Started\<rparr>)"
    by (simp add: example_server_def)
  have b2: "bot_heap (example_server\<lparr>active_connections := Map.empty\<rparr>) 0
       = Some ((new_bot ''foo'')\<lparr>status := Started\<rparr>)"
    by (simp add: example_server_def)
  have s: "emote_sentiment_scores example_server = Map.empty"
    by (simp add: example_server_def)
  have e: "\<not> echo example_event" "content example_event = Some ''hi LUL''"
    by (simp_all add: example_event_def)
  have m: "map fst (fst (event_message example_lib (\<lambda>c. False) 0 example_event example_server))
       = [ChatMessage
           \<lparr>p_timestamp = ''2025-01-01T00:00:00'', p_author = ''viewer'',
            p_content = ''hi LUL'', p_tags = None, p_sentiment_score = None,
            p_sentiment_words = Map.empty, p_keywords = [''hi'', ''lul''],
            p_detected_emotes = []\<rparr>]"
    by (simp add: event_message_messages [OF b1] e s example_enriched)
  from enrichment_deterministic [OF b1 b2, of example_lib "\<lambda>c. False" example_event "\<lambda>c. True"]
  show ?thesis using b1 b2 m by simp
qed

section \<open>Teardown\<close>

lemma trace_open:
  "snd (websocket_open example_config True (\<lambda>c. False) TaskCreated 3 ''Foo'' empty_server) =
     empty_server\<lparr>active_connections := [''foo'' \<mapsto> [3]],
                   active_bots := [''foo'' \<mapsto> 0],
                   bot_heap := [0 \<mapsto> (new_bot ''foo'')\<lparr>status := Started\<rparr>],
                   next_bot := 1\<rparr>"
  by (simp add: websocket_open_def start_twitch_bot_def connect_def example_config_def
      empty_server_def string_eval Let_def)

lemma trace_subscribed_eq:
  "trace_subscribed =
     empty_server\<lparr>active_connections := [''foo'' \<mapsto> [3]],
                   active_bots := [''foo'' \<mapsto> 0],
                   bot_heap := [0 \<mapsto> (new_bot ''foo'')\<lparr>status := Started\<rparr>],
                   next_bot := 1\<rparr>"
  by (simp add: trace_subscribed_def trace_open)

lemma foo_lower: "py_lower ''foo'' = ''foo''" "py_lower ''Foo'' = ''foo''"
  by (simp_all add: py_lower_def lower_char_def upper_chars_def lower_chars_def)

lemma foo_strip: "py_strip ''foo'' = ''foo''"
  by (simp add: py_strip_def py_isspace_def py_whitespace_def)

lemma trace_send_failed_eq:
  "trace_send_failed =
     empty_server\<lparr>active_connections := Map.empty,
                   active_bots := [''foo'' \<mapsto> 0],
                   bot_heap := [0 \<mapsto> (new_bot ''foo'')\<lparr>status := Started\<rparr>],
                   next_bot := 1\<rparr>"
  by (simp add: trace_send_failed_def trace_subscribed_eq event_message_def example_event_def
      broadcast_to_streamer_def disconnect_def new_bot_def foo_lower empty_server_def Let_def)

lemma trace_closed_eq:
  "trace_closed =
     empty_server\<lparr>active_connections := Map.empty,
                   active_bots := Map.empty,
                   bot_heap := [0 \<mapsto> (new_bot ''foo'')\<lparr>status := Closed\<rparr>],
                   next_bot := 1\<rparr>"
  by (simp add: trace_closed_def trace_subscribed_eq websocket_close_def stop_twitch_bot_def
      stop_bot_def disconnect_def new_bot_def foo_lower foo_strip empty_server_def Let_def)

text \<open>
  Claim C8 on the code. One websocket subscribes to \<open>foo\<close>, which starts the bot 0.
  When a send to this websocket fails during a broadcast, \<open>disconnect\<close> removes the
  last entry of the registry, but the bot stays in \<open>active_bots\<close> and is not stopped,
  and the next \<open>start_twitch_bot\<close> for \<open>foo\<close> returns the old bot 0 without
  creating one. When the same websocket is closed through the \<^verbatim>\<open>finally\<close> block
  of the endpoint instead, the bot is removed and closed, and the next
  \<open>start_twitch_bot\<close> creates the new bot 1.
\<close>

theorem stale_bot_after_failed_send:
  "active_connections trace_subscribed = [''foo'' \<mapsto> [3]]
   \<and> active_connections trace_send_failed = Map.empty
   \<and> active_bots trace_send_failed ''foo'' = Some 0
   \<and> map_option status (bot_heap trace_send_failed 0) = Some Started
   \<and> fst (start_twitch_bot example_config (\<lambda>c. False) TaskCreated ''foo'' trace_send_failed)
       = Some 0
   \<and> next_bot (snd (snd (start_twitch_bot example_config (\<lambda>c. False) TaskCreated ''foo''
                              trace_send_failed))) = 1
   \<and> active_bots trace_closed ''foo'' = None
   \<and> map_option status (bot_heap trace_closed 0) = Some Closed
   \<and> fst (start_twitch_bot example_config (\<lambda>c. False) TaskCreated ''foo'' trace_closed)
       = Some 1"
  by (simp add: trace_subscribed_eq trace_send_failed_eq trace_closed_eq start_twitch_bot_def
      broadcast_to_streamer_def foo_lower empty_server_def example_config_def Let_def)

end
